theory Spec2Isabelle
  imports Complex_Main
begin

text \<open>
  The command-line front end \<open>curveball/scripts/cli.py\<close>: plate loading, file discovery,
  background correction, the fitting loop of \<open>process_file\<close> and the command \<open>analyse\<close>.
  The analysis library, the plots, the parsers of data files, \<open>pandas.read_csv\<close> and
  the file system are collaborators: they are parameters of the model (the records
  \<open>env\<close> and \<open>filesystem\<close>), and each of their calls may raise. A run threads the
  list of the events it emits and ends with its value or with the exception raised.
  Progress bars draw on the terminal only and are left out; \<open>click.format_filename\<close> is
  the identity on the text of a path.
\<close>

section \<open>Paths (posixpath, as used by cli.py)\<close>

type_synonym path = string

text \<open>\<open>str.rfind\<close>: the highest index of the character, or \<open>-1\<close>.\<close>

fun rfind :: "char \<Rightarrow> string \<Rightarrow> int" where
  "rfind c [] = -1"
| "rfind c (x # xs) =
     (let r = rfind c xs in if 0 \<le> r then r + 1 else if x = c then 0 else -1)"

text \<open>\<open>os.path.join\<close> of two components.\<close>

definition path_join :: "path \<Rightarrow> path \<Rightarrow> path" where
  "path_join a b =
     (if b \<noteq> [] \<and> hd b = CHR ''/'' then b
      else if a = [] \<or> last a = CHR ''/'' then a @ b
      else a @ ''/'' @ b)"

text \<open>\<open>os.path.splitext\<close>: the extension starts at the last dot of the last
  component, unless that component consists of leading dots only up to there.\<close>

definition splitext :: "path \<Rightarrow> path \<times> string" where
  "splitext p =
     (let sepIndex = rfind CHR ''/'' p; dotIndex = rfind CHR ''.'' p in
      if dotIndex > sepIndex \<and>
         list_ex (\<lambda>c. c \<noteq> CHR ''.'')
           (take (nat (dotIndex - (sepIndex + 1))) (drop (nat (sepIndex + 1)) p))
      then (take (nat dotIndex) p, drop (nat dotIndex) p)
      else (p, []))"

text \<open>\<open>os.path.basename\<close> and \<open>os.path.dirname\<close>.\<close>

definition basename :: "path \<Rightarrow> path" where
  "basename p = drop (nat (rfind CHR ''/'' p + 1)) p"

definition rstrip_slash :: "string \<Rightarrow> string" where
  "rstrip_slash s = rev (dropWhile (\<lambda>c. c = CHR ''/'') (rev s))"

definition dirname :: "path \<Rightarrow> path" where
  "dirname p =
     (let hd_part = take (nat (rfind CHR ''/'' p + 1)) p in
      if hd_part \<noteq> [] \<and> list_ex (\<lambda>c. c \<noteq> CHR ''/'') hd_part
      then rstrip_slash hd_part else hd_part)"

text \<open>\<open>str.lower\<close> on ASCII text.\<close>

definition lower_char :: "char \<Rightarrow> char" where
  "lower_char c =
     (case map_of (zip ''ABCDEFGHIJKLMNOPQRSTUVWXYZ'' ''abcdefghijklmnopqrstuvwxyz'') c of
        Some d \<Rightarrow> d
      | None \<Rightarrow> c)"

definition lower :: "string \<Rightarrow> string" where
  "lower s = map lower_char s"

section \<open>Errors, events and the outside world\<close>

text \<open>Exceptions that leave the program, and those of the collaborators that the
  program catches (\<open>IOError\<close>, \<open>XLRDError\<close>, \<open>CParserError\<close>).\<close>

datatype error =
    FileError path string
  | ClickException string
  | Abort
  | IOError path string
  | XLRDError string
  | CParserError string
  | IndexError
  | KeyError string
  | NameError string
  | ImportError string
  | BadParameter string
  | OtherError string

text \<open>The file system as the program observes it: \<open>os.path.exists\<close>,
  \<open>os.path.isdir\<close>, \<open>glob.glob\<close>, the read permission that \<open>click.Path\<close> checks, and
  \<open>pkg_resources.resource_filename\<close>, which imports its first argument as a package and
  raises when that fails.\<close>

record filesystem =
  exists :: "path \<Rightarrow> bool"
  isdir :: "path \<Rightarrow> bool"
  readable :: "path \<Rightarrow> bool"
  glob :: "string \<Rightarrow> path list"
  resource_filename :: "string \<Rightarrow> string \<Rightarrow> error + path"

section \<open>Plate Loader: \<open>find_plate_file\<close>\<close>

definition find_plate_file :: "filesystem \<Rightarrow> path \<Rightarrow> string \<Rightarrow> error + path" where
  "find_plate_file fs plate_folder plate_file =
     (let plate_path = path_join plate_folder plate_file in
      case (if \<not> exists fs plate_path
            then resource_filename fs plate_folder plate_file
            else Inr plate_path) of
        Inl e \<Rightarrow> Inl e
      | Inr plate_path \<Rightarrow>
          if \<not> exists fs plate_path
          then Inl (FileError plate_path ''can't find file.'')
          else Inr plate_path)"

section \<open>File Discovery (the first part of \<open>analyse\<close>)\<close>

datatype handler = Read_tecan_mat | Read_tecan_xlsx

definition file_extension_handlers :: "string \<Rightarrow> handler option" where
  "file_extension_handlers =
     [''.mat'' \<mapsto> Read_tecan_mat, ''.xlsx'' \<mapsto> Read_tecan_xlsx]"

definition list_files :: "filesystem \<Rightarrow> path \<Rightarrow> path list" where
  "list_files fs p =
     (if isdir fs p
      then map (\<lambda>fn. path_join p fn) (glob fs (path_join p ''*''))
      else glob fs p)"

definition has_handler :: "path \<Rightarrow> bool" where
  "has_handler fn = (file_extension_handlers (lower (snd (splitext fn))) \<noteq> None)"

definition discover :: "filesystem \<Rightarrow> path \<Rightarrow> path list" where
  "discover fs p = filter has_handler (list_files fs p)"

section \<open>Tables\<close>

text \<open>A float of the data tables: a number or NaN (infinities are left out).\<close>

datatype pyfloat = NaN | Flt real

definition pf_sub :: "pyfloat \<Rightarrow> pyfloat \<Rightarrow> pyfloat" where
  "pf_sub a b = (case (a, b) of (Flt x, Flt y) \<Rightarrow> Flt (x - y) | _ \<Rightarrow> NaN)"

definition pf_lt :: "pyfloat \<Rightarrow> pyfloat \<Rightarrow> bool" where
  "pf_lt a b = (case (a, b) of (Flt x, Flt y) \<Rightarrow> x < y | _ \<Rightarrow> False)"

definition pf_eq :: "pyfloat \<Rightarrow> pyfloat \<Rightarrow> bool" where
  "pf_eq a b = (case (a, b) of (Flt x, Flt y) \<Rightarrow> x = y | _ \<Rightarrow> False)"

fun numbers :: "pyfloat list \<Rightarrow> real list" where
  "numbers [] = []"
| "numbers (NaN # xs) = numbers xs"
| "numbers (Flt x # xs) = x # numbers xs"

text \<open>\<open>Series.min\<close>, \<open>Series.max\<close> and \<open>Series.mean\<close> skip NaN and give NaN
  when nothing is left.\<close>

definition series_min :: "pyfloat list \<Rightarrow> pyfloat" where
  "series_min xs = (case numbers xs of [] \<Rightarrow> NaN | v # vs \<Rightarrow> Flt (fold min vs v))"

definition series_max :: "pyfloat list \<Rightarrow> pyfloat" where
  "series_max xs = (case numbers xs of [] \<Rightarrow> NaN | v # vs \<Rightarrow> Flt (fold max vs v))"

definition series_mean :: "pyfloat list \<Rightarrow> pyfloat" where
  "series_mean xs =
     (case numbers xs of [] \<Rightarrow> NaN | v # vs \<Rightarrow> Flt (sum_list (v # vs) / real (length (v # vs))))"

text \<open>\<open>Series.unique\<close>: the distinct values in order of first appearance.\<close>

definition unique :: "'a list \<Rightarrow> 'a list" where
  "unique xs = rev (remdups (rev xs))"

text \<open>A row of the plate table (\<open>plate.Strain\<close>, \<open>plate.Color\<close>) and a row of a
  readings table (\<open>df.Strain\<close>, \<open>df.Time\<close>, \<open>df.OD\<close>).\<close>

record well =
  plate_Well :: string
  plate_Strain :: string
  plate_Color :: string

type_synonym plate = "well list"

record reading =
  df_Well :: string
  df_Strain :: string
  df_Time :: pyfloat
  df_OD :: pyfloat

type_synonym readings = "reading list"

section \<open>Fits and result records\<close>

record fit =
  fit_model_name :: string
  fit_chisqr :: real
  fit_bic :: real
  fit_aic :: real
  fit_params :: "string \<Rightarrow> real option"

type_synonym fig = nat
type_synonym trajectory = "real list list"

text \<open>The dictionary \<open>res\<close>; \<open>res_w = None\<close> when the key \<open>w\<close> was never set.\<close>

record result =
  res_folder :: string
  res_filename :: string
  res_strain :: string
  res_model :: string
  res_RSS :: real
  res_bic :: real
  res_aic :: real
  res_benchmark :: real
  res_y0 :: real
  res_K :: real
  res_r :: real
  res_nu :: real
  res_q0 :: real
  res_v :: real
  res_max_growth_rate :: real
  res_lag :: real
  res_has_lag :: bool
  res_has_nu :: bool
  res_w :: "real option"

text \<open>What the run lets the outside see: terminal output, the calls of the fitting
  routine, and the output table written at the end.\<close>

datatype event =
    Echo string
  | Secho string string
  | Fit_model_call string
  | To_csv "result list"

text \<open>The process-wide toggles.\<close>

record config =
  VERBOSE :: bool
  PLOT :: bool
  PROMPT :: bool

definition ERROR_COLOR :: string where
  "ERROR_COLOR = ''red''"

definition INFO_COLOR :: string where
  "INFO_COLOR = ''white''"

definition echo_error :: "event list \<Rightarrow> string \<Rightarrow> event list" where
  "echo_error evs message = evs @ [Secho (''Error: '' @ message) ERROR_COLOR]"

definition echo_info :: "config \<Rightarrow> event list \<Rightarrow> string \<Rightarrow> event list" where
  "echo_info cfg evs message = (if VERBOSE cfg then evs @ [Secho message INFO_COLOR] else evs)"

text \<open>The external collaborators. Each call may raise; \<open>plots_*\<close> and \<open>savefig\<close>
  return \<open>Some e\<close> when they raise \<open>e\<close>. \<open>models_fit_model\<close> and
  \<open>competitions_compete\<close> take the \<open>PLOT\<close> flag and return a figure that is read
  only when the flag holds. \<open>confirm\<close> is the user's answer to the prompt, and
  \<open>format_hours\<close> is the rendering \<open>'%.2f' % max_time\<close>.\<close>

record env =
  ioutils_read_tecan_mat :: "path \<Rightarrow> plate \<Rightarrow> real option \<Rightarrow> error + readings"
  ioutils_read_tecan_xlsx :: "path \<Rightarrow> plate \<Rightarrow> real option \<Rightarrow> error + readings"
  pd_read_csv :: "path \<Rightarrow> error + plate"
  plots_plot_plate :: "plate \<Rightarrow> error + fig"
  confirm :: bool
  format_hours :: "real option \<Rightarrow> string"
  plots_plot_wells :: "readings \<Rightarrow> path \<Rightarrow> error option"
  plots_plot_strains :: "readings \<Rightarrow> path \<Rightarrow> error option"
  models_fit_model :: "readings \<Rightarrow> bool \<Rightarrow> bool \<Rightarrow> error + (fit list \<times> fig)"
  savefig :: "fig \<Rightarrow> path \<Rightarrow> error option"
  models_benchmark :: "fit list \<Rightarrow> error + real"
  models_find_max_growth :: "fit \<Rightarrow> error + real list"
  models_find_lag :: "fit \<Rightarrow> error + real"
  models_has_lag :: "fit list \<Rightarrow> error + bool"
  models_has_nu :: "fit list \<Rightarrow> bool \<Rightarrow> error + bool"
  competitions_compete ::
    "fit \<Rightarrow> fit \<Rightarrow> pyfloat \<Rightarrow> string list \<Rightarrow> bool \<Rightarrow> error + (trajectory \<times> fig)"
  competitions_fitness_LTEE :: "trajectory \<Rightarrow> error + real"

definition ebind :: "error + 'a \<Rightarrow> ('a \<Rightarrow> error + 'b) \<Rightarrow> error + 'b" where
  "ebind m f = (case m of Inl e \<Rightarrow> Inl e | Inr x \<Rightarrow> f x)"

section \<open>Plate Loader: \<open>load_plate\<close>\<close>

definition load_plate :: "env \<Rightarrow> path \<Rightarrow> error + plate" where
  "load_plate env plate_path =
     (case pd_read_csv env plate_path of
        Inl (IOError filename message) \<Rightarrow> Inl (FileError filename message)
      | Inl (CParserError arg) \<Rightarrow>
          Inl (FileError plate_path (''parser error, probably not a CSV file, '' @ arg))
      | Inl e \<Rightarrow> Inl e
      | Inr plate \<Rightarrow> Inr plate)"

section \<open>Background Correction (\<open>process_file\<close>, the blank strain)\<close>

definition blank_rows :: "string \<Rightarrow> readings \<Rightarrow> readings" where
  "blank_rows blank_strain df =
     filter (\<lambda>row. df_Strain row = blank_strain \<and>
                   pf_eq (df_Time row) (series_min (map df_Time df))) df"

definition background :: "string \<Rightarrow> readings \<Rightarrow> pyfloat" where
  "background blank_strain df = series_mean (map df_OD (blank_rows blank_strain df))"

definition subtract :: "pyfloat \<Rightarrow> readings \<Rightarrow> readings" where
  "subtract bg df = map (\<lambda>row. row\<lparr>df_OD := pf_sub (df_OD row) bg\<rparr>) df"

definition clamp_negative :: "readings \<Rightarrow> readings" where
  "clamp_negative df =
     map (\<lambda>row. if pf_lt (df_OD row) (Flt 0) then row\<lparr>df_OD := Flt 0\<rparr> else row) df"

definition background_correction ::
  "event list \<Rightarrow> string option \<Rightarrow> string list \<Rightarrow> readings \<Rightarrow> event list \<times> readings" where
  "background_correction evs blank_strain strains df =
     (case blank_strain of
        None \<Rightarrow> (evs, df)
      | Some b \<Rightarrow>
          if b \<in> set strains
          then (evs, clamp_negative (subtract (background b df) df))
          else (echo_error evs (''Warning! Blank strain '' @ [CHR 0x27] @ b @ [CHR 0x27]
                                @ '' doesn't exist''), df))"

section \<open>Format Dispatcher (\<open>process_file\<close>, reading the data file)\<close>

definition call_handler :: "env \<Rightarrow> handler \<Rightarrow> path \<Rightarrow> plate \<Rightarrow> real option \<Rightarrow> error + readings" where
  "call_handler env h filepath plate max_time_arg =
     (case h of
        Read_tecan_mat \<Rightarrow> ioutils_read_tecan_mat env filepath plate max_time_arg
      | Read_tecan_xlsx \<Rightarrow> ioutils_read_tecan_xlsx env filepath plate max_time_arg)"

text \<open>\<open>max_time\<close> is \<open>None\<close> when it is not finite (the default \<open>np.inf\<close>); the
  handler then gets no \<open>max_time\<close> argument.\<close>

definition read_data ::
  "env \<Rightarrow> handler \<Rightarrow> path \<Rightarrow> string \<Rightarrow> plate \<Rightarrow> real option \<Rightarrow> error + readings" where
  "read_data env h filepath ext plate max_time =
     (case (case max_time of
              Some t \<Rightarrow> call_handler env h filepath plate (Some t)
            | None \<Rightarrow> call_handler env h filepath plate None) of
        Inl (IOError filename message) \<Rightarrow> Inl (FileError filename message)
      | Inl (XLRDError arg) \<Rightarrow>
          Inl (FileError filepath (''parser error, probably not a '' @ ext @ '' file, '' @ arg))
      | Inl e \<Rightarrow> Inl e
      | Inr df \<Rightarrow> Inr df)"

section \<open>Plots of the whole file (\<open>process_file\<close>, \<open>if PLOT\<close>)\<close>

definition plot_file :: "env \<Rightarrow> config \<Rightarrow> event list \<Rightarrow> path \<Rightarrow> readings \<Rightarrow> event list \<times> error option" where
  "plot_file env cfg evs fn df =
     (if PLOT cfg then
        (let wells_plot_fn = fn @ ''_wells.png'' in
         case plots_plot_wells env df wells_plot_fn of
           Some e \<Rightarrow> (evs, Some e)
         | None \<Rightarrow>
             (let evs = echo_info cfg evs (''Wrote wells plot to '' @ wells_plot_fn);
                  strains_plot_fn = fn @ ''_strains.png'' in
              case plots_plot_strains env df strains_plot_fn of
                Some e \<Rightarrow> (evs, Some e)
              | None \<Rightarrow> (echo_info cfg evs (''Wrote strains plot to '' @ strains_plot_fn), None)))
      else (evs, None))"

section \<open>The order in which strains are fitted\<close>

definition remove_blank :: "string option \<Rightarrow> string list \<Rightarrow> string list" where
  "remove_blank blank_strain strains =
     (case blank_strain of
        None \<Rightarrow> strains
      | Some b \<Rightarrow> if b \<in> set strains then remove1 b strains else strains)"

definition missing_reference_warning :: "string \<Rightarrow> string" where
  "missing_reference_warning ref_strain =
     ''Warning, reference strains '' @ [CHR 0x27] @ ref_strain @ [CHR 0x27] @ '' doesn't exist!''"

definition order_strains ::
  "event list \<Rightarrow> string option \<Rightarrow> string \<Rightarrow> string list \<Rightarrow> event list \<times> string list" where
  "order_strains evs blank_strain ref_strain strains =
     (let strains = remove_blank blank_strain strains in
      if ref_strain \<in> set strains
      then (evs, ref_strain # remove1 ref_strain strains)
      else (echo_error evs (missing_reference_warning ref_strain), strains))"

section \<open>Per-Strain Fit Orchestrator (the loop of \<open>process_file\<close>)\<close>

definition param :: "fit \<Rightarrow> string \<Rightarrow> error + real" where
  "param f name = (case fit_params f name of None \<Rightarrow> Inl (KeyError name) | Some x \<Rightarrow> Inr x)"

definition param_default :: "fit \<Rightarrow> string \<Rightarrow> real \<Rightarrow> real" where
  "param_default f name d = (case fit_params f name of None \<Rightarrow> d | Some x \<Rightarrow> x)"

definition last_item :: "'a list \<Rightarrow> error + 'a" where
  "last_item xs = (if xs = [] then Inl IndexError else Inr (last xs))"

text \<open>The record of one strain, before its fitness is known.\<close>

definition strain_record ::
  "env \<Rightarrow> config \<Rightarrow> path \<Rightarrow> path \<Rightarrow> string \<Rightarrow> fit list \<Rightarrow> error + (fit \<times> result)" where
  "strain_record env cfg filepath fn strain fit_results =
     (case fit_results of
        [] \<Rightarrow> Inl IndexError
      | f # _ \<Rightarrow>
          ebind (models_benchmark env fit_results) (\<lambda>bm.
          ebind (param f ''y0'') (\<lambda>y0.
          ebind (param f ''K'') (\<lambda>k.
          ebind (param f ''r'') (\<lambda>rate.
          ebind (models_find_max_growth env f) (\<lambda>growth.
          ebind (last_item growth) (\<lambda>mgr.
          ebind (models_find_lag env f) (\<lambda>lg.
          ebind (models_has_lag env fit_results) (\<lambda>hl.
          ebind (models_has_nu env fit_results (VERBOSE cfg)) (\<lambda>hn.
            Inr (f,
              \<lparr>res_folder = dirname filepath,
               res_filename = fst (splitext (basename fn)),
               res_strain = strain,
               res_model = fit_model_name f,
               res_RSS = fit_chisqr f,
               res_bic = fit_bic f,
               res_aic = fit_aic f,
               res_benchmark = bm,
               res_y0 = y0,
               res_K = k,
               res_r = rate,
               res_nu = param_default f ''nu'' 1,
               res_q0 = param_default f ''q0'' 0,
               res_v = param_default f ''v'' 0,
               res_max_growth_rate = mgr,
               res_lag = lg,
               res_has_lag = hl,
               res_has_nu = hn,
               res_w = None\<rparr>)))))))))))"

text \<open>The fitness of a strain other than the reference, by competition.\<close>

definition competition ::
  "env \<Rightarrow> config \<Rightarrow> event list \<Rightarrow> path \<Rightarrow> readings \<Rightarrow> plate \<Rightarrow> string \<Rightarrow> string \<Rightarrow>
   path \<Rightarrow> fit \<Rightarrow> fit option \<Rightarrow> event list \<times> (error + real)" where
  "competition env cfg evs fn df plate ref_strain strain strain_plot_fn f ref_fit =
     (let colors = unique (map plate_Color
                     (filter (\<lambda>row. plate_Strain row \<in> set [strain, ref_strain]) plate)) in
      case ref_fit of
        None \<Rightarrow> (evs, Inl (NameError ''ref_fit''))
      | Some rf \<Rightarrow>
          (case competitions_compete env f rf (series_max (map df_Time df)) colors (PLOT cfg) of
             Inl e \<Rightarrow> (evs, Inl e)
           | Inr (y, fg) \<Rightarrow>
               (if PLOT cfg then
                  (let competition_plot_fn = fn @ ''_'' @ strain @ ''_vs_'' @ ref_strain @ ''.png'' in
                   case savefig env fg competition_plot_fn of
                     Some e \<Rightarrow> (evs, Inl e)
                   | None \<Rightarrow>
                       (echo_info cfg evs (''Wrote competition '' @ strain @ '' vs '' @ ref_strain
                                           @ '' plot to '' @ strain_plot_fn),
                        competitions_fitness_LTEE env y))
                else (evs, competitions_fitness_LTEE env y))))"

text \<open>One iteration of the loop: the state is the reference fit seen so far.\<close>

definition fit_strain ::
  "env \<Rightarrow> config \<Rightarrow> path \<Rightarrow> path \<Rightarrow> readings \<Rightarrow> plate \<Rightarrow> string \<Rightarrow> string list \<Rightarrow>
   string \<Rightarrow> fit option \<Rightarrow> event list \<Rightarrow> event list \<times> (error + (fit option \<times> result))" where
  "fit_strain env cfg filepath fn df plate ref_strain strains strain ref_fit evs =
     (let strain_df = filter (\<lambda>row. df_Strain row = strain) df;
          evs = evs @ [Fit_model_call strain];
          strain_plot_fn = fn @ ''_strain_'' @ strain @ ''.png'' in
      case models_fit_model env strain_df (PLOT cfg) (VERBOSE cfg) of
        Inl e \<Rightarrow> (evs, Inl e)
      | Inr (fit_results, fg) \<Rightarrow>
          (case (if PLOT cfg then savefig env fg strain_plot_fn else None) of
             Some e \<Rightarrow> (evs, Inl e)
           | None \<Rightarrow>
               (let evs = (if PLOT cfg
                           then echo_info cfg evs (''Wrote strain '' @ strain @ '' plot to ''
                                                   @ strain_plot_fn)
                           else evs) in
                case strain_record env cfg filepath fn strain fit_results of
                  Inl e \<Rightarrow> (evs, Inl e)
                | Inr (f, res) \<Rightarrow>
                    if strain = ref_strain
                    then (evs, Inr (Some f, res\<lparr>res_w := Some 1\<rparr>))
                    else if ref_strain \<in> set strains
                    then (case competition env cfg evs fn df plate ref_strain strain
                                 strain_plot_fn f ref_fit of
                            (evs, Inl e) \<Rightarrow> (evs, Inl e)
                          | (evs, Inr fitness) \<Rightarrow>
                              (evs, Inr (ref_fit, res\<lparr>res_w := Some fitness\<rparr>)))
                    else (evs, Inr (ref_fit, res)))))"

fun fit_strains ::
  "env \<Rightarrow> config \<Rightarrow> path \<Rightarrow> path \<Rightarrow> readings \<Rightarrow> plate \<Rightarrow> string \<Rightarrow> string list \<Rightarrow>
   string list \<Rightarrow> fit option \<Rightarrow> result list \<Rightarrow> event list \<Rightarrow> event list \<times> (error + result list)" where
  "fit_strains env cfg filepath fn df plate ref_strain strains [] ref_fit results evs =
     (evs, Inr results)"
| "fit_strains env cfg filepath fn df plate ref_strain strains (strain # rest) ref_fit results evs =
     (case fit_strain env cfg filepath fn df plate ref_strain strains strain ref_fit evs of
        (evs, Inl e) \<Rightarrow> (evs, Inl e)
      | (evs, Inr (ref_fit, res)) \<Rightarrow>
          fit_strains env cfg filepath fn df plate ref_strain strains rest ref_fit
            (results @ [res]) evs)"

section \<open>\<open>process_file\<close>\<close>

text \<open>The first half of \<open>process_file\<close>, up to the plots of the whole file: it ends
  with \<open>Inr None\<close> when the file has no handler (the early \<open>return results\<close>), with
  \<open>Inr (Some df)\<close> when the readings were read, corrected and plotted, and with
  \<open>Inl e\<close> when \<open>e\<close> was raised.\<close>

definition prepare_readings ::
  "env \<Rightarrow> config \<Rightarrow> event list \<Rightarrow> path \<Rightarrow> plate \<Rightarrow> string option \<Rightarrow> real option \<Rightarrow>
   event list \<times> (error + readings option)" where
  "prepare_readings env cfg evs filepath plate blank_strain max_time =
     (let (fn, ext) = splitext filepath in
      case file_extension_handlers ext of
        None \<Rightarrow> (echo_info cfg evs (''No handler found for file '' @ filepath), Inr None)
      | Some h \<Rightarrow>
          (case read_data env h filepath ext plate max_time of
             Inl e \<Rightarrow> (evs, Inl e)
           | Inr df \<Rightarrow>
               (let strains = unique (map plate_Strain plate);
                    (evs, df) = background_correction evs blank_strain strains df in
                case plot_file env cfg evs fn df of
                  (evs, Some e) \<Rightarrow> (evs, Inl e)
                | (evs, None) \<Rightarrow> (evs, Inr (Some df)))))"

text \<open>The second half: the strains are ordered and fitted one after the other.\<close>

definition process_file ::
  "env \<Rightarrow> config \<Rightarrow> event list \<Rightarrow> path \<Rightarrow> plate \<Rightarrow> string option \<Rightarrow> string \<Rightarrow> real option \<Rightarrow>
   event list \<times> (error + result list)" where
  "process_file env cfg evs filepath plate blank_strain ref_strain max_time =
     (case prepare_readings env cfg evs filepath plate blank_strain max_time of
        (evs, Inl e) \<Rightarrow> (evs, Inl e)
      | (evs, Inr None) \<Rightarrow> (evs, Inr [])
      | (evs, Inr (Some df)) \<Rightarrow>
          (let fn = fst (splitext filepath);
               strains = unique (map plate_Strain plate);
               (evs, strains) = order_strains evs blank_strain ref_strain strains in
           fit_strains env cfg filepath fn df plate ref_strain strains strains None [] evs))"

text \<open>The fitting of one strain raises nothing: the fit, the saving of its plot and the
  assembly of its record (used to say that a run goes on).\<close>

definition fit_succeeds :: "env \<Rightarrow> config \<Rightarrow> path \<Rightarrow> path \<Rightarrow> readings \<Rightarrow> string \<Rightarrow> bool" where
  "fit_succeeds env cfg filepath fn df strain =
     (case models_fit_model env (filter (\<lambda>row. df_Strain row = strain) df) (PLOT cfg)
             (VERBOSE cfg) of
        Inl e \<Rightarrow> False
      | Inr (fit_results, fg) \<Rightarrow>
          (if PLOT cfg then savefig env fg (fn @ ''_strain_'' @ strain @ ''.png'') = None
           else True) \<and>
          (case strain_record env cfg filepath fn strain fit_results of
             Inl e \<Rightarrow> False
           | Inr rec \<Rightarrow> True))"

section \<open>\<open>analyse\<close>\<close>

text \<open>\<open>'%d' % n\<close> and \<open>', '.join(xs)\<close>.\<close>

fun show_nat :: "nat \<Rightarrow> string" where
  "show_nat n =
     (if n < 10 then [''0123456789'' ! n]
      else show_nat (n div 10) @ [''0123456789'' ! (n mod 10)])"

declare show_nat.simps [simp del]

fun join_comma :: "string list \<Rightarrow> string" where
  "join_comma [] = []"
| "join_comma [x] = x"
| "join_comma (x # y # ys) = x @ '', '' @ join_comma (y # ys)"

fun process_files ::
  "env \<Rightarrow> config \<Rightarrow> event list \<Rightarrow> path list \<Rightarrow> plate \<Rightarrow> string option \<Rightarrow> string \<Rightarrow>
   real option \<Rightarrow> result list \<Rightarrow> event list \<times> (error + result list)" where
  "process_files env cfg evs [] plate blank_strain ref_strain max_time results =
     (evs, Inr results)"
| "process_files env cfg evs (filepath # rest) plate blank_strain ref_strain max_time results =
     (case process_file env cfg evs filepath plate blank_strain ref_strain max_time of
        (evs, Inl e) \<Rightarrow> (evs, Inl e)
      | (evs, Inr file_results) \<Rightarrow>
          process_files env cfg evs rest plate blank_strain ref_strain max_time
            (results @ file_results))"

text \<open>The interactive confirmation of the plate (\<open>if PROMPT\<close>).\<close>

definition prompt_plate :: "env \<Rightarrow> config \<Rightarrow> event list \<Rightarrow> plate \<Rightarrow> event list \<times> error option" where
  "prompt_plate env cfg evs plate =
     (let plate_strains = unique (map plate_Strain plate) in
      if PROMPT cfg then
        (case plots_plot_plate env plate of
           Inl e \<Rightarrow> (evs, Some e)
         | Inr fg \<Rightarrow>
             (let evs = evs @ [Echo (''Plate with '' @ show_nat (length plate_strains)
                                     @ '' strains: '' @ join_comma plate_strains)] in
              if confirm env then (evs, None) else (evs, Some Abort)))
      else (evs, None))"

text \<open>The body of the command; the run ends with \<open>None\<close> when it completes and with
  \<open>Some e\<close> when \<open>e\<close> is raised. Strain labels are text in the model, so
  \<open>plate.Strain = map(unicode, plate.Strain)\<close> changes nothing. The output table is
  written by the event \<open>To_csv\<close> (the output file is opened lazily, at that write).\<close>

definition analyse_body ::
  "env \<Rightarrow> filesystem \<Rightarrow> config \<Rightarrow> path \<Rightarrow> string \<Rightarrow> path \<Rightarrow> string \<Rightarrow> string \<Rightarrow> string \<Rightarrow>
   real option \<Rightarrow> event list \<times> error option" where
  "analyse_body env fs cfg path output_file plate_folder plate_file blank_strain ref_strain max_time =
     (case find_plate_file fs plate_folder plate_file of
        Inl e \<Rightarrow> ([], Some e)
      | Inr plate_path \<Rightarrow>
          (let evs = (if VERBOSE cfg then
                        [Echo (''- Processing '' @ path),
                         Echo (''- Using plate template from '' @ plate_path),
                         Echo (''- Blank strain: '' @ blank_strain @ ''; Reference strain: ''
                               @ ref_strain),
                         Echo (''- Omitting data after '' @ format_hours env max_time @ '' hours''),
                         Echo (replicate 40 CHR ''-'')]
                      else []) in
           case load_plate env plate_path of
             Inl e \<Rightarrow> (evs, Some e)
           | Inr plate \<Rightarrow>
               (case prompt_plate env cfg evs plate of
                  (evs, Some e) \<Rightarrow> (evs, Some e)
                | (evs, None) \<Rightarrow>
                    (let files = discover fs path in
                     if files = []
                     then (evs, Some (ClickException (''No data files found in folder '' @ path)))
                     else
                       (case process_files env cfg evs files plate (Some blank_strain)
                               ref_strain max_time [] of
                          (evs, Inl e) \<Rightarrow> (evs, Some e)
                        | (evs, Inr results) \<Rightarrow>
                            (let evs = evs @ [To_csv results] in
                             if VERBOSE cfg \<and> output_file \<noteq> ''-''
                             then (evs @ [Secho (''Wrote output to '' @ output_file) ''green''],
                                   None)
                             else (evs, None)))))))"

text \<open>The argument \<open>PATH\<close> is declared \<open>click.Path(exists=True, readable=True)\<close>:
  click checks it before the body runs and raises \<open>BadParameter\<close>.\<close>

definition click_path :: "filesystem \<Rightarrow> path \<Rightarrow> error option" where
  "click_path fs p =
     (if \<not> exists fs p
      then Some (BadParameter (''Path '' @ [CHR 0x22] @ p @ [CHR 0x22] @ '' does not exist.''))
      else if \<not> readable fs p
      then Some (BadParameter (''Path '' @ [CHR 0x22] @ p @ [CHR 0x22] @ '' is not readable.''))
      else None)"

definition analyse ::
  "env \<Rightarrow> filesystem \<Rightarrow> config \<Rightarrow> path \<Rightarrow> string \<Rightarrow> path \<Rightarrow> string \<Rightarrow> string \<Rightarrow> string \<Rightarrow>
   real option \<Rightarrow> event list \<times> error option" where
  "analyse env fs cfg path output_file plate_folder plate_file blank_strain ref_strain max_time =
     (case click_path fs path of
        Some e \<Rightarrow> ([], Some e)
      | None \<Rightarrow>
          analyse_body env fs cfg path output_file plate_folder plate_file blank_strain
            ref_strain max_time)"

section \<open>The background, in the words of the specification\<close>

text \<open>The mean optical density of the blank strain's wells at the minimum observed
  time: \<open>t\<close> is the minimum observed time when it is the time of a row and no row has
  a smaller one; the mean is the sum of the numbers over their count, and is NaN when
  there is none.\<close>

definition is_minimum_time :: "readings \<Rightarrow> real \<Rightarrow> bool" where
  "is_minimum_time df t \<longleftrightarrow>
     (\<exists>row \<in> set df. df_Time row = Flt t) \<and>
     (\<forall>row \<in> set df. \<forall>t'. df_Time row = Flt t' \<longrightarrow> t \<le> t')"

definition blank_mean_at_minimum_time :: "string \<Rightarrow> readings \<Rightarrow> pyfloat" where
  "blank_mean_at_minimum_time blank_strain df =
     (let ods = concat (map (\<lambda>row. case df_OD row of Flt x \<Rightarrow> [x] | NaN \<Rightarrow> [])
                  (filter (\<lambda>row. df_Strain row = blank_strain \<and>
                                (\<exists>t. df_Time row = Flt t \<and> is_minimum_time df t)) df))
      in if ods = [] then NaN else Flt (sum_list ods / real (length ods)))"

section \<open>The plotting calls of the loop\<close>

text \<open>The plotting calls that the loop of \<open>process_file\<close> makes for a strain return
  normally: the saving of the plot of its fit, and the saving of the plot of its
  competition with the reference strain. The fits are those that the fitting routine
  returns for the readings of the two strains.\<close>

definition first_fit :: "env \<Rightarrow> config \<Rightarrow> readings \<Rightarrow> string \<Rightarrow> fit option" where
  "first_fit env cfg df strain =
     (case models_fit_model env (filter (\<lambda>row. df_Strain row = strain) df) (PLOT cfg)
             (VERBOSE cfg) of
        Inl e \<Rightarrow> None
      | Inr (fit_results, fg) \<Rightarrow> (case fit_results of [] \<Rightarrow> None | f # _ \<Rightarrow> Some f))"

definition strain_plot_saved :: "env \<Rightarrow> config \<Rightarrow> path \<Rightarrow> readings \<Rightarrow> string \<Rightarrow> bool" where
  "strain_plot_saved env cfg fn df strain =
     (case models_fit_model env (filter (\<lambda>row. df_Strain row = strain) df) (PLOT cfg)
             (VERBOSE cfg) of
        Inl e \<Rightarrow> False
      | Inr (fit_results, fg) \<Rightarrow> savefig env fg (fn @ ''_strain_'' @ strain @ ''.png'') = None)"

definition competition_plot_saved ::
  "env \<Rightarrow> config \<Rightarrow> path \<Rightarrow> readings \<Rightarrow> plate \<Rightarrow> string \<Rightarrow> string \<Rightarrow> bool" where
  "competition_plot_saved env cfg fn df plate ref_strain strain =
     (case (first_fit env cfg df strain, first_fit env cfg df ref_strain) of
        (Some f, Some rf) \<Rightarrow>
          (case competitions_compete env f rf (series_max (map df_Time df))
                  (unique (map plate_Color
                     (filter (\<lambda>row. plate_Strain row \<in> set [strain, ref_strain]) plate)))
                  (PLOT cfg) of
             Inl e \<Rightarrow> False
           | Inr (y, fg) \<Rightarrow>
               savefig env fg (fn @ ''_'' @ strain @ ''_vs_'' @ ref_strain @ ''.png'') = None)
      | _ \<Rightarrow> False)"

section \<open>A small plate, data file and set of collaborators\<close>

text \<open>The scenario of the specification: a plate with the strains \<open>0\<close> (blank),
  \<open>1\<close> (reference) and \<open>2\<close>, and one data file with readings of all three, the
  blank reading \<open>0.05\<close> at time \<open>0\<close>.\<close>

definition example_plate :: plate where
  "example_plate =
     [\<lparr>plate_Well = ''A1'', plate_Strain = ''0'', plate_Color = ''#ffffff''\<rparr>,
      \<lparr>plate_Well = ''A2'', plate_Strain = ''1'', plate_Color = ''#ff0000''\<rparr>,
      \<lparr>plate_Well = ''A3'', plate_Strain = ''2'', plate_Color = ''#0000ff''\<rparr>,
      \<lparr>plate_Well = ''A4'', plate_Strain = ''1'', plate_Color = ''#ff0000''\<rparr>]"

definition example_df :: readings where
  "example_df =
     [\<lparr>df_Well = ''A1'', df_Strain = ''0'', df_Time = Flt 0, df_OD = Flt (1/20)\<rparr>,
      \<lparr>df_Well = ''A2'', df_Strain = ''1'', df_Time = Flt 0, df_OD = Flt (1/25)\<rparr>,
      \<lparr>df_Well = ''A3'', df_Strain = ''2'', df_Time = Flt 0, df_OD = Flt (3/20)\<rparr>,
      \<lparr>df_Well = ''A1'', df_Strain = ''0'', df_Time = Flt 1, df_OD = Flt (1/10)\<rparr>,
      \<lparr>df_Well = ''A2'', df_Strain = ''1'', df_Time = Flt 1, df_OD = Flt (1/2)\<rparr>,
      \<lparr>df_Well = ''A3'', df_Strain = ''2'', df_Time = Flt 1, df_OD = NaN\<rparr>]"

text \<open>A fit of the three-parameter model: \<open>nu\<close>, \<open>q0\<close> and \<open>v\<close> are absent.\<close>

definition example_fit :: fit where
  "example_fit =
     \<lparr>fit_model_name = ''Logistic'', fit_chisqr = 1/100, fit_bic = -40, fit_aic = -42,
      fit_params = [''y0'' \<mapsto> 1/10, ''K'' \<mapsto> 1, ''r'' \<mapsto> 1/2]\<rparr>"

definition example_env :: env where
  "example_env =
     \<lparr>ioutils_read_tecan_mat = (\<lambda>filepath plate max_time_arg. Inr example_df),
      ioutils_read_tecan_xlsx = (\<lambda>filepath plate max_time_arg. Inl (XLRDError ''bad sheet'')),
      pd_read_csv = (\<lambda>plate_path. Inr example_plate),
      plots_plot_plate = (\<lambda>plate. Inr 0),
      confirm = True,
      format_hours = (\<lambda>max_time. ''inf''),
      plots_plot_wells = (\<lambda>df output_filename. None),
      plots_plot_strains = (\<lambda>df output_filename. None),
      models_fit_model = (\<lambda>df plt prt. Inr ([example_fit], 1)),
      savefig = (\<lambda>fg output_filename. None),
      models_benchmark = (\<lambda>fit_results. Inr 1),
      models_find_max_growth = (\<lambda>f. Inr [2, 1/4]),
      models_find_lag = (\<lambda>f. Inr 3),
      models_has_lag = (\<lambda>fit_results. Inr False),
      models_has_nu = (\<lambda>fit_results prt. Inr False),
      competitions_compete = (\<lambda>f rf hours colors plt. Inr ([[1, 1], [2, 3]], 2)),
      competitions_fitness_LTEE = (\<lambda>y. Inr (11/10))\<rparr>"

text \<open>The record that these collaborators give for a strain of the file
  \<open>data/a.mat\<close>, with fitness \<open>w\<close>.\<close>

definition example_record :: "string \<Rightarrow> real option \<Rightarrow> result" where
  "example_record strain w =
     \<lparr>res_folder = ''data'', res_filename = ''a'', res_strain = strain,
      res_model = ''Logistic'', res_RSS = 1/100, res_bic = -40, res_aic = -42,
      res_benchmark = 1, res_y0 = 1/10, res_K = 1, res_r = 1/2,
      res_nu = 1, res_q0 = 0, res_v = 0, res_max_growth_rate = 1/4, res_lag = 3,
      res_has_lag = False, res_has_nu = False, res_w = w\<rparr>"

definition example_config :: config where
  "example_config = \<lparr>VERBOSE = False, PLOT = True, PROMPT = False\<rparr>"

text \<open>A working directory with the relative folder \<open>data\<close>, holding one data file
  and one other file; \<open>glob\<close> returns its matches with the folder in front.\<close>

definition example_fs :: filesystem where
  "example_fs =
     \<lparr>exists = (\<lambda>p. p \<in> set [''data'', ''data/a.mat'', ''data/notes.txt'',
                               ''plate_templates/checkerboard.csv'']),
      isdir = (\<lambda>p. p = ''data''),
      readable = (\<lambda>p. p \<in> set [''data'', ''data/a.mat'', ''data/notes.txt'',
                                 ''plate_templates/checkerboard.csv'']),
      glob = (\<lambda>pattern. if pattern = ''data/*'' then [''data/a.mat'', ''data/notes.txt'']
                        else if pattern \<in> set [''data/a.mat'', ''data/notes.txt'']
                        then [pattern] else []),
      resource_filename =
        (\<lambda>package resource.
           if package = ''plate_templates'' then Inr (''/pkg/plate_templates/'' @ resource)
           else Inl (ImportError (''No module named '' @ package)))\<rparr>"

text \<open>The same collaborators, with a wells plot that fails.\<close>

definition broken_plots_env :: env where
  "broken_plots_env =
     example_env\<lparr>plots_plot_wells :=
                   (\<lambda>df output_filename. Some (OtherError ''cannot write image''))\<rparr>"

section \<open>Facts about the helpers\<close>

lemma ebind_Inr: "ebind m f = Inr y \<longleftrightarrow> (\<exists>x. m = Inr x \<and> f x = Inr y)"
  by (cases m) (simp_all add: ebind_def)

lemma example_strains: "unique (map plate_Strain example_plate) = [''0'', ''1'', ''2'']"
  by (simp add: unique_def example_plate_def)

lemma example_background: "background ''0'' example_df = Flt (1/20)"
  by (simp add: background_def blank_rows_def series_mean_def series_min_def pf_eq_def
      example_df_def)

lemma corrected_row:
  assumes "i < length df"
  shows "clamp_negative (subtract bg df) ! i =
           (df ! i)\<lparr>df_OD := (if pf_lt (pf_sub (df_OD (df ! i)) bg) (Flt 0) then Flt 0
                                else pf_sub (df_OD (df ! i)) bg)\<rparr>"
  using assms by (simp add: clamp_negative_def subtract_def)

lemma strain_record_fields:
  assumes "strain_record env cfg filepath fn strain fit_results = Inr (f, res)"
  shows "fit_results \<noteq> [] \<and> f = hd fit_results \<and> res_strain res = strain \<and> res_w res = None \<and>
         res_nu res = param_default f ''nu'' 1 \<and> res_q0 res = param_default f ''q0'' 0 \<and>
         res_v res = param_default f ''v'' 0"
  using assms by (auto simp: strain_record_def ebind_Inr split: list.splits)

section \<open>Facts about the fitting loop\<close>

lemma competition_appends:
  assumes "competition env cfg evs fn df plate ref_strain strain spf f ref_fit = (evs', r)"
  shows "\<exists>new. evs' = evs @ new \<and> (\<forall>e \<in> set new. \<exists>m c. e = Secho m c)"
  using assms
  by (auto simp: competition_def echo_info_def Let_def split: option.splits sum.splits prod.splits if_splits)

lemma fit_strain_appends:
  assumes "fit_strain env cfg filepath fn df plate ref_strain strains strain ref_fit evs = (evs', r)"
  shows "\<exists>new. evs' = evs @ Fit_model_call strain # new \<and> (\<forall>e \<in> set new. \<exists>m c. e = Secho m c)"
  using assms
  apply (simp add: fit_strain_def Let_def echo_info_def split: option.splits sum.splits prod.splits if_splits)
  apply (auto dest!: competition_appends)
  done

lemma fit_strain_events:
  assumes "fit_strain env cfg filepath fn df plate ref_strain strains strain ref_fit evs = (evs', r)"
  shows "set evs \<subseteq> set evs' \<and>
         (Fit_model_call s \<in> set evs' \<longrightarrow> Fit_model_call s \<in> set evs \<or> s = strain)"
proof -
  from fit_strain_appends [OF assms] obtain new where
    new: "evs' = evs @ Fit_model_call strain # new" "\<forall>e \<in> set new. \<exists>m c. e = Secho m c"
    by blast
  have "Fit_model_call s \<notin> set new"
    using new(2) by blast
  with new(1) show ?thesis by auto
qed

lemma fit_strains_events:
  assumes "fit_strains env cfg filepath fn df plate ref_strain strains todo ref_fit results evs = (evs', r)"
  shows "set evs \<subseteq> set evs' \<and>
         (Fit_model_call s \<in> set evs' \<longrightarrow> Fit_model_call s \<in> set evs \<or> s \<in> set todo)"
  using assms
proof (induction todo arbitrary: ref_fit results evs)
  case Nil
  then show ?case by simp
next
  case (Cons strain rest)
  obtain evs1 r1 where step:
    "fit_strain env cfg filepath fn df plate ref_strain strains strain ref_fit evs = (evs1, r1)"
    by (rule prod.exhaust)
  note ev1 = fit_strain_events [OF step, of s]
  show ?case
  proof (cases r1)
    case (Inl e)
    with Cons.prems step have "evs' = evs1" by simp
    with ev1 show ?thesis by auto
  next
    case (Inr p)
    obtain rf res where p: "p = (rf, res)" by (cases p)
    from Cons.prems step Inr p
    have "fit_strains env cfg filepath fn df plate ref_strain strains rest rf (results @ [res]) evs1 = (evs', r)"
      by simp
    from Cons.IH [OF this] ev1 show ?thesis by auto
  qed
qed

lemma fit_strain_result:
  assumes "fit_strain env cfg filepath fn df plate ref_strain strains strain ref_fit evs
             = (evs', Inr (ref_fit', res))"
  shows "res_strain res = strain \<and>
         (strain = ref_strain \<longrightarrow> res_w res = Some 1) \<and>
         (strain \<noteq> ref_strain \<and> ref_strain \<notin> set strains \<longrightarrow> res_w res = None)"
  using assms
  by (auto simp: fit_strain_def Let_def
      split: option.splits sum.splits prod.splits if_splits dest: strain_record_fields)

lemma fit_strains_step:
  assumes "fit_strains env cfg filepath fn df plate ref_strain strains (strain # rest) ref_fit results evs
             = (evs', Inr rs)"
  shows "\<exists>evs1 rf res.
           fit_strain env cfg filepath fn df plate ref_strain strains strain ref_fit evs
             = (evs1, Inr (rf, res)) \<and>
           fit_strains env cfg filepath fn df plate ref_strain strains rest rf (results @ [res]) evs1
             = (evs', Inr rs)"
proof -
  obtain evs1 r1 where step0:
    "fit_strain env cfg filepath fn df plate ref_strain strains strain ref_fit evs = (evs1, r1)"
    by (rule prod.exhaust)
  show ?thesis
  proof (cases r1)
    case (Inl e)
    with assms step0 show ?thesis by simp
  next
    case (Inr p)
    obtain rf res where p: "p = (rf, res)" by (cases p)
    with assms step0 Inr show ?thesis by simp
  qed
qed

lemma fit_strains_strains:
  assumes "fit_strains env cfg filepath fn df plate ref_strain strains todo ref_fit results evs
             = (evs', Inr rs)"
  shows "map res_strain rs = map res_strain results @ todo"
  using assms
proof (induction todo arbitrary: ref_fit results evs)
  case Nil
  then show ?case by simp
next
  case (Cons strain rest)
  from fit_strains_step [OF Cons.prems] obtain evs1 rf res where
    step: "fit_strain env cfg filepath fn df plate ref_strain strains strain ref_fit evs
             = (evs1, Inr (rf, res))"
    and rest: "fit_strains env cfg filepath fn df plate ref_strain strains rest rf (results @ [res]) evs1
             = (evs', Inr rs)"
    by blast
  from fit_strain_result [OF step] have "res_strain res = strain" by blast
  with Cons.IH [OF rest] show ?case by simp
qed

lemma fit_strains_reference_fitness:
  assumes "fit_strains env cfg filepath fn df plate ref_strain strains todo ref_fit results evs
             = (evs', Inr rs)"
    and "\<forall>r \<in> set results. res_strain r = ref_strain \<longrightarrow> res_w r = Some 1"
  shows "\<forall>r \<in> set rs. res_strain r = ref_strain \<longrightarrow> res_w r = Some 1"
  using assms
proof (induction todo arbitrary: ref_fit results evs)
  case Nil
  then show ?case by simp
next
  case (Cons strain rest)
  from fit_strains_step [OF Cons.prems(1)] obtain evs1 rf res where
    step: "fit_strain env cfg filepath fn df plate ref_strain strains strain ref_fit evs
             = (evs1, Inr (rf, res))"
    and rest: "fit_strains env cfg filepath fn df plate ref_strain strains rest rf (results @ [res]) evs1
             = (evs', Inr rs)"
    by blast
  from fit_strain_result [OF step] have "res_strain res = ref_strain \<longrightarrow> res_w res = Some 1"
    by blast
  with Cons.prems(2)
  have "\<forall>r \<in> set (results @ [res]). res_strain r = ref_strain \<longrightarrow> res_w r = Some 1"
    by simp
  from Cons.IH [OF rest this] show ?case .
qed

lemma fit_strains_no_fitness:
  assumes "fit_strains env cfg filepath fn df plate ref_strain strains todo ref_fit results evs
             = (evs', Inr rs)"
    and "ref_strain \<notin> set strains" and "ref_strain \<notin> set todo"
    and "\<forall>r \<in> set results. res_w r = None"
  shows "\<forall>r \<in> set rs. res_w r = None"
  using assms
proof (induction todo arbitrary: ref_fit results evs)
  case Nil
  then show ?case by simp
next
  case (Cons strain rest)
  from fit_strains_step [OF Cons.prems(1)] obtain evs1 rf res where
    step: "fit_strain env cfg filepath fn df plate ref_strain strains strain ref_fit evs
             = (evs1, Inr (rf, res))"
    and rest: "fit_strains env cfg filepath fn df plate ref_strain strains rest rf (results @ [res]) evs1
             = (evs', Inr rs)"
    by blast
  from Cons.prems(3) have ne: "strain \<noteq> ref_strain" and nr: "ref_strain \<notin> set rest"
    by auto
  from fit_strain_result [OF step] ne Cons.prems(2) have "res_w res = None"
    by blast
  with Cons.prems(4) have "\<forall>r \<in> set (results @ [res]). res_w r = None"
    by simp
  from Cons.IH [OF rest Cons.prems(2) nr this] show ?case .
qed

section \<open>Facts about the order of strains and the events before the loop\<close>

lemma distinct_unique: "distinct (unique xs)"
  by (simp add: unique_def)

lemma distinct_remove_blank: "distinct strains \<Longrightarrow> distinct (remove_blank blank_strain strains)"
  by (auto simp: remove_blank_def split: option.splits)

lemma remove_blank_Some:
  "distinct strains \<Longrightarrow> b \<notin> set (remove_blank (Some b) strains)"
  by (auto simp: remove_blank_def)

lemma remove_blank_keeps:
  assumes "s \<in> set strains" and "blank_strain \<noteq> Some s"
  shows "s \<in> set (remove_blank blank_strain strains)"
proof (cases blank_strain)
  case None
  with assms show ?thesis by (simp add: remove_blank_def)
next
  case (Some b)
  with assms have "s \<noteq> b" by auto
  with assms Some show ?thesis by (simp add: remove_blank_def in_set_remove1)
qed

lemma remove_blank_subset: "set (remove_blank blank_strain strains) \<subseteq> set strains"
  using set_remove1_subset [of _ strains]
  by (auto simp: remove_blank_def split: option.splits)

lemma order_strains_events:
  "fst (order_strains evs blank_strain ref_strain strains) =
     (if ref_strain \<in> set (remove_blank blank_strain strains) then evs
      else echo_error evs (missing_reference_warning ref_strain))"
  by (simp add: order_strains_def Let_def)

lemma order_strains_order:
  "snd (order_strains evs blank_strain ref_strain strains) =
     (if ref_strain \<in> set (remove_blank blank_strain strains)
      then ref_strain # remove1 ref_strain (remove_blank blank_strain strains)
      else remove_blank blank_strain strains)"
  by (simp add: order_strains_def Let_def)

lemma background_correction_events:
  "set evs \<subseteq> set (fst (background_correction evs blank_strain strains df)) \<and>
   (Fit_model_call s \<in> set (fst (background_correction evs blank_strain strains df))
      \<longrightarrow> Fit_model_call s \<in> set evs)"
  by (auto simp: background_correction_def echo_error_def split: option.splits)

lemma plot_file_events:
  "set evs \<subseteq> set (fst (plot_file env cfg evs fn df)) \<and>
   (Fit_model_call s \<in> set (fst (plot_file env cfg evs fn df)) \<longrightarrow> Fit_model_call s \<in> set evs)"
  by (auto simp: plot_file_def echo_info_def Let_def split: option.splits)

lemma prepare_readings_events:
  assumes "prepare_readings env cfg evs filepath plate blank_strain max_time = (evs', r)"
  shows "set evs \<subseteq> set evs' \<and> (Fit_model_call s \<in> set evs' \<longrightarrow> Fit_model_call s \<in> set evs)"
proof -
  obtain fn ext where sp: "splitext filepath = (fn, ext)" by (rule prod.exhaust)
  show ?thesis
  proof (cases "file_extension_handlers ext")
    case None
    with assms sp show ?thesis
      by (auto simp: prepare_readings_def echo_info_def split: if_splits)
  next
    case (Some h)
    show ?thesis
    proof (cases "read_data env h filepath ext plate max_time")
      case (Inl e)
      with assms sp Some show ?thesis by (auto simp: prepare_readings_def)
    next
      case (Inr df)
      let ?bc = "background_correction evs blank_strain (unique (map plate_Strain plate)) df"
      from assms sp Some Inr
      have "evs' = fst (plot_file env cfg (fst ?bc) fn (snd ?bc))"
        by (auto simp: prepare_readings_def case_prod_beta Let_def split: prod.splits option.splits)
      with background_correction_events [of evs blank_strain "unique (map plate_Strain plate)" df s]
        plot_file_events [of "fst ?bc" env cfg fn "snd ?bc" s]
      show ?thesis by blast
    qed
  qed
qed

lemma example_prepared:
  "prepare_readings example_env example_config [] ''data/a.mat'' example_plate (Some ''0'') None
     = ([], Inr (Some (clamp_negative (subtract (Flt (1/20)) example_df))))"
  by (simp add: prepare_readings_def splitext_def file_extension_handlers_def read_data_def
      call_handler_def example_env_def example_strains background_correction_def
      example_background plot_file_def example_config_def echo_info_def)

lemma process_file_prepared:
  assumes "prepare_readings env cfg evs filepath plate blank_strain max_time = (evs1, Inr (Some df0))"
  shows "process_file env cfg evs filepath plate blank_strain ref_strain max_time =
           fit_strains env cfg filepath (fst (splitext filepath)) df0 plate ref_strain
             (snd (order_strains evs1 blank_strain ref_strain (unique (map plate_Strain plate))))
             (snd (order_strains evs1 blank_strain ref_strain (unique (map plate_Strain plate))))
             None []
             (fst (order_strains evs1 blank_strain ref_strain (unique (map plate_Strain plate))))"
  using assms by (simp add: process_file_def Let_def case_prod_beta)

lemma process_file_cases:
  fixes env cfg evs filepath plate blank_strain ref_strain max_time
  defines "run \<equiv> process_file env cfg evs filepath plate blank_strain ref_strain max_time"
    and "strains \<equiv> unique (map plate_Strain plate)"
  obtains
    (failed) evs1 e where
      "prepare_readings env cfg evs filepath plate blank_strain max_time = (evs1, Inl e)"
      "run = (evs1, Inl e)"
  | (no_handler) evs1 where
      "prepare_readings env cfg evs filepath plate blank_strain max_time = (evs1, Inr None)"
      "run = (evs1, Inr [])"
  | (fitted) evs1 df0 where
      "prepare_readings env cfg evs filepath plate blank_strain max_time = (evs1, Inr (Some df0))"
      "run = fit_strains env cfg filepath (fst (splitext filepath)) df0 plate ref_strain
               (snd (order_strains evs1 blank_strain ref_strain strains))
               (snd (order_strains evs1 blank_strain ref_strain strains)) None []
               (fst (order_strains evs1 blank_strain ref_strain strains))"
proof -
  obtain evs1 r where prep:
    "prepare_readings env cfg evs filepath plate blank_strain max_time = (evs1, r)"
    by (rule prod.exhaust)
  show ?thesis
  proof (cases r)
    case (Inl e)
    with prep have "run = (evs1, Inl e)" by (simp add: run_def process_file_def)
    with prep Inl show ?thesis by (auto intro: failed)
  next
    case (Inr x)
    show ?thesis
    proof (cases x)
      case None
      with prep Inr have "run = (evs1, Inr [])" by (simp add: run_def process_file_def)
      with prep Inr None show ?thesis by (auto intro: no_handler)
    next
      case (Some df0)
      with prep Inr have p: "prepare_readings env cfg evs filepath plate blank_strain max_time
          = (evs1, Inr (Some df0))" by simp
      from process_file_prepared [OF p, of ref_strain]
      have "run = fit_strains env cfg filepath (fst (splitext filepath)) df0 plate ref_strain
               (snd (order_strains evs1 blank_strain ref_strain strains))
               (snd (order_strains evs1 blank_strain ref_strain strains)) None []
               (fst (order_strains evs1 blank_strain ref_strain strains))"
        by (simp add: run_def strains_def)
      with p show ?thesis by (rule fitted)
    qed
  qed
qed

lemma prepare_readings_handler:
  assumes "prepare_readings env cfg evs filepath plate blank_strain max_time = (evs1, Inr None)"
  shows "file_extension_handlers (snd (splitext filepath)) = None"
  using assms
  by (auto simp: prepare_readings_def Let_def case_prod_beta split: option.splits sum.splits)

lemma fit_strain_without_reference:
  assumes "fit_succeeds env cfg filepath fn df strain" and "strain \<noteq> ref_strain"
    and "ref_strain \<notin> set strains"
  shows "\<exists>evs' res. fit_strain env cfg filepath fn df plate ref_strain strains strain ref_fit evs
           = (evs', Inr (ref_fit, res))"
  using assms
  by (auto simp: fit_succeeds_def fit_strain_def Let_def
      split: sum.splits prod.splits option.splits if_splits)

lemma fit_strains_without_reference:
  assumes "\<forall>s \<in> set todo. fit_succeeds env cfg filepath fn df s"
    and "ref_strain \<notin> set todo" and "ref_strain \<notin> set strains"
  shows "\<exists>evs' rs. fit_strains env cfg filepath fn df plate ref_strain strains todo ref_fit results evs
           = (evs', Inr rs)"
  using assms
proof (induction todo arbitrary: results evs)
  case Nil
  then show ?case by simp
next
  case (Cons strain rest)
  from Cons.prems have "fit_succeeds env cfg filepath fn df strain" "strain \<noteq> ref_strain"
    by auto
  from fit_strain_without_reference [OF this Cons.prems(3)] obtain evs1 res where
    step: "fit_strain env cfg filepath fn df plate ref_strain strains strain ref_fit evs
             = (evs1, Inr (ref_fit, res))"
    by blast
  from Cons.prems have "\<forall>s \<in> set rest. fit_succeeds env cfg filepath fn df s"
    "ref_strain \<notin> set rest"
    by auto
  from Cons.IH [OF this Cons.prems(3), of "results @ [res]" evs1] step
  show ?case by simp
qed

lemma run_without_reference:
  fixes plate :: plate
  defines "strains \<equiv> unique (map plate_Strain plate)"
  assumes gone: "ref_strain \<notin> set (remove_blank blank_strain strains)"
    and run: "process_file env cfg evs filepath plate blank_strain ref_strain max_time
                = (evs', outcome)"
  shows "(Fit_model_call ref_strain \<in> set evs' \<longrightarrow> Fit_model_call ref_strain \<in> set evs) \<and>
         (\<forall>rs. outcome = Inr rs \<longrightarrow> (\<forall>r \<in> set rs. res_w r = None \<and> res_strain r \<noteq> ref_strain)) \<and>
         (\<forall>evs1 df0.
            prepare_readings env cfg evs filepath plate blank_strain max_time
              = (evs1, Inr (Some df0)) \<longrightarrow>
            Secho (''Error: '' @ missing_reference_warning ref_strain) ERROR_COLOR \<in> set evs' \<and>
            (\<forall>rs. outcome = Inr rs \<longrightarrow> map res_strain rs = remove_blank blank_strain strains) \<and>
            ((\<forall>s \<in> set (remove_blank blank_strain strains).
                 fit_succeeds env cfg filepath (fst (splitext filepath)) df0 s) \<longrightarrow>
             (\<exists>rs. outcome = Inr rs)))"
proof (cases rule: process_file_cases [of env cfg evs filepath plate blank_strain max_time ref_strain])
  case (failed evs1 e)
  with run have "evs' = evs1" "outcome = Inl e" by simp_all
  with prepare_readings_events [OF failed(1), of ref_strain] failed(1) show ?thesis by auto
next
  case (no_handler evs1)
  with run have "evs' = evs1" "outcome = Inr []" by simp_all
  with prepare_readings_events [OF no_handler(1), of ref_strain] no_handler(1) show ?thesis by auto
next
  case (fitted evs1 df0)
  let ?order = "remove_blank blank_strain strains"
  let ?evs2 = "echo_error evs1 (missing_reference_warning ref_strain)"
  have ord: "snd (order_strains evs1 blank_strain ref_strain (unique (map plate_Strain plate)))
               = ?order"
    "fst (order_strains evs1 blank_strain ref_strain (unique (map plate_Strain plate))) = ?evs2"
    using gone by (simp_all add: order_strains_order order_strains_events strains_def)
  from fitted(2) run have loop:
    "fit_strains env cfg filepath (fst (splitext filepath)) df0 plate ref_strain ?order ?order
       None [] ?evs2 = (evs', outcome)"
    by (simp add: ord)
  note ev = fit_strains_events [OF loop, of ref_strain] prepare_readings_events [OF fitted(1), of ref_strain]
  have calls: "Fit_model_call ref_strain \<in> set evs' \<longrightarrow> Fit_model_call ref_strain \<in> set evs"
    using ev gone by (auto simp: echo_error_def)
  have warn: "Secho (''Error: '' @ missing_reference_warning ref_strain) ERROR_COLOR \<in> set evs'"
    using ev by (auto simp: echo_error_def)
  have recs: "map res_strain rs = ?order \<and> (\<forall>r \<in> set rs. res_w r = None \<and> res_strain r \<noteq> ref_strain)"
    if "outcome = Inr rs" for rs
  proof -
    note l = loop [unfolded that]
    from fit_strains_strains [OF l] have m: "map res_strain rs = ?order" by simp
    from fit_strains_no_fitness [OF l gone gone] have "\<forall>r \<in> set rs. res_w r = None" by simp
    moreover have "\<forall>r \<in> set rs. res_strain r \<noteq> ref_strain"
    proof
      fix r assume "r \<in> set rs"
      then have "res_strain r \<in> set (map res_strain rs)" by simp
      with m gone show "res_strain r \<noteq> ref_strain" by auto
    qed
    ultimately show ?thesis using m by blast
  qed
  have total: "\<exists>rs. outcome = Inr rs"
    if "\<forall>s \<in> set ?order. fit_succeeds env cfg filepath (fst (splitext filepath)) df0 s"
    using fit_strains_without_reference [OF that gone gone, of plate None "[]" ?evs2] loop
    by auto
  have same: "evs1' = evs1 \<and> df0' = df0"
    if "prepare_readings env cfg evs filepath plate blank_strain max_time = (evs1', Inr (Some df0'))"
    for evs1' df0'
    using that fitted(1) by simp
  from calls warn recs total same show ?thesis by blast
qed

section \<open>The example, evaluated\<close>

lemma example_paths:
  "splitext ''data/a.mat'' = (''data/a'', ''.mat'')" "dirname ''data/a.mat'' = ''data''"
  "fst (splitext (basename ''data/a'')) = ''a''"
  by (simp_all add: splitext_def dirname_def basename_def rstrip_slash_def)

lemma example_strain_record:
  "strain_record example_env example_config ''data/a.mat'' ''data/a'' strain [example_fit]
     = Inr (example_fit, example_record strain None)"
  by (simp add: strain_record_def ebind_def param_def param_default_def last_item_def
      example_env_def example_fit_def example_record_def example_paths)

lemma example_calls:
  "models_fit_model example_env df plt prt = Inr ([example_fit], 1)"
  "savefig example_env fg output_filename = None"
  "competitions_compete example_env f rf hours colors plt = Inr ([[1, 1], [2, 3]], 2)"
  "competitions_fitness_LTEE example_env y = Inr (11/10)"
  "PLOT example_config" "\<not> VERBOSE example_config"
  by (simp_all add: example_env_def example_config_def)

lemma example_fit_reference:
  "fit_strain example_env example_config ''data/a.mat'' ''data/a'' df plate strain strains strain
     ref_fit evs
   = (evs @ [Fit_model_call strain], Inr (Some example_fit, example_record strain (Some 1)))"
  by (simp add: fit_strain_def example_strain_record example_calls echo_info_def
      example_record_def)

lemma example_fit_competitor:
  assumes "strain \<noteq> ref_strain" and "ref_strain \<in> set strains"
  shows "fit_strain example_env example_config ''data/a.mat'' ''data/a'' df plate ref_strain strains
           strain (Some rf) evs
         = (evs @ [Fit_model_call strain], Inr (Some rf, example_record strain (Some (11/10))))"
  using assms
  by (simp add: fit_strain_def example_strain_record competition_def example_calls echo_info_def
      example_record_def)

lemma example_fit_unreferenced:
  assumes "strain \<noteq> ref_strain" and "ref_strain \<notin> set strains"
  shows "fit_strain example_env example_config ''data/a.mat'' ''data/a'' df plate ref_strain strains
           strain ref_fit evs
         = (evs @ [Fit_model_call strain], Inr (ref_fit, example_record strain None))"
  using assms
  by (simp add: fit_strain_def example_strain_record example_calls echo_info_def)

lemma example_run:
  "process_file example_env example_config [] ''data/a.mat'' example_plate (Some ''0'') ''1'' None
     = ([Fit_model_call ''1'', Fit_model_call ''2''],
        Inr [example_record ''1'' (Some 1), example_record ''2'' (Some (11/10))])"
  by (simp add: process_file_prepared [OF example_prepared] order_strains_def remove_blank_def
      example_strains example_paths example_fit_reference example_fit_competitor)

lemma example_prepared_blank:
  assumes "b \<in> set (unique (map plate_Strain example_plate))"
  shows "prepare_readings example_env example_config [] ''data/a.mat'' example_plate (Some b) None
     = ([], Inr (Some (clamp_negative (subtract (background b example_df) example_df))))"
  using assms
  by (simp add: prepare_readings_def example_paths file_extension_handlers_def read_data_def
      call_handler_def example_env_def background_correction_def
      plot_file_def example_config_def echo_info_def)

lemma example_run_coinciding:
  "process_file example_env example_config [] ''data/a.mat'' example_plate (Some ''1'') ''1'' None
     = ([Secho (''Error: '' @ missing_reference_warning ''1'') ERROR_COLOR,
         Fit_model_call ''0'', Fit_model_call ''2''],
        Inr [example_record ''0'' None, example_record ''2'' None])"
proof -
  have "''1'' \<in> set (unique (map plate_Strain example_plate))"
    by (simp add: example_strains)
  from process_file_prepared [OF example_prepared_blank [OF this]] show ?thesis
    by (simp add: order_strains_def remove_blank_def example_strains example_paths
        example_fit_unreferenced echo_error_def)
qed

lemma example_fit_succeeds:
  "fit_succeeds example_env example_config ''data/a.mat'' ''data/a'' df strain"
  by (simp add: fit_succeeds_def example_calls example_strain_record)

lemma example_run_broken_plots:
  "process_file broken_plots_env example_config [] ''data/a.mat'' example_plate (Some ''0'')
     ''1'' None = ([], Inl (OtherError ''cannot write image''))"
  by (simp add: process_file_def prepare_readings_def example_paths file_extension_handlers_def
      read_data_def call_handler_def broken_plots_env_def example_env_def
      background_correction_def example_strains plot_file_def example_config_def)

text \<open>For matches that are absolute paths the second join changes nothing.\<close>

lemma path_join_absolute: "b \<noteq> [] \<Longrightarrow> hd b = CHR ''/'' \<Longrightarrow> path_join a b = b"
  by (simp add: path_join_def)

lemma list_files_absolute:
  assumes "isdir fs p"
    and "\<forall>fn \<in> set (glob fs (path_join p ''*'')). fn \<noteq> [] \<and> hd fn = CHR ''/''"
  shows "list_files fs p = glob fs (path_join p ''*'')"
  using assms by (simp add: list_files_def path_join_absolute map_idI)

lemma example_list_files:
  "list_files example_fs ''data'' = [''data/data/a.mat'', ''data/data/notes.txt'']"
  by (simp add: list_files_def example_fs_def path_join_def)

lemma prompt_plate_outcome:
  "snd (prompt_plate env cfg evs plate) =
     (if PROMPT cfg
      then (case plots_plot_plate env plate of
              Inl e \<Rightarrow> Some e
            | Inr fg \<Rightarrow> if confirm env then None else Some Abort)
      else None)"
  by (simp add: prompt_plate_def Let_def split: sum.splits)

lemma prompt_plate_events:
  "To_csv table \<notin> set evs \<Longrightarrow> To_csv table \<notin> set (fst (prompt_plate env cfg evs plate))"
  by (simp add: prompt_plate_def Let_def split: sum.splits)

section \<open>The background is the mean of the blank readings at the minimum time\<close>

lemma numbers_concat:
  "numbers xs = concat (map (\<lambda>v. case v of Flt x \<Rightarrow> [x] | NaN \<Rightarrow> []) xs)"
  by (induction xs rule: numbers.induct) simp_all

lemma set_numbers: "x \<in> set (numbers xs) \<longleftrightarrow> Flt x \<in> set xs"
  by (induction xs rule: numbers.induct) auto

lemma series_min_Flt:
  "series_min ts = Flt t \<longleftrightarrow> t \<in> set (numbers ts) \<and> (\<forall>t' \<in> set (numbers ts). t \<le> t')"
proof (cases "numbers ts")
  case Nil
  then show ?thesis by (simp add: series_min_def)
next
  case (Cons v vs)
  have "fold min vs v = Min (set (v # vs))"
    by (rule Min.set_eq_fold [symmetric])
  with Cons have m: "series_min ts = Flt (Min (set (numbers ts)))"
    by (simp add: series_min_def)
  have fin: "finite (set (numbers ts))" "set (numbers ts) \<noteq> {}"
    using Cons by simp_all
  show ?thesis
  proof
    assume "series_min ts = Flt t"
    with m have "t = Min (set (numbers ts))" by simp
    with fin show "t \<in> set (numbers ts) \<and> (\<forall>t' \<in> set (numbers ts). t \<le> t')"
      by (simp add: Min_in)
  next
    assume "t \<in> set (numbers ts) \<and> (\<forall>t' \<in> set (numbers ts). t \<le> t')"
    with fin have "Min (set (numbers ts)) = t"
      by (intro Min_eqI) auto
    with m show "series_min ts = Flt t" by simp
  qed
qed

lemma at_minimum_time:
  "pf_eq (df_Time row) (series_min (map df_Time df)) \<longleftrightarrow>
     (\<exists>t. df_Time row = Flt t \<and> is_minimum_time df t)"
proof (cases "df_Time row")
  case NaN
  then show ?thesis by (simp add: pf_eq_def)
next
  case (Flt t)
  have "pf_eq (Flt t) (series_min (map df_Time df)) \<longleftrightarrow> series_min (map df_Time df) = Flt t"
    by (cases "series_min (map df_Time df)") (auto simp: pf_eq_def)
  also have "\<dots> \<longleftrightarrow> is_minimum_time df t"
  proof -
    have "u \<in> set (numbers (map df_Time df)) \<longleftrightarrow> (\<exists>row \<in> set df. df_Time row = Flt u)"
      for u
      unfolding set_numbers by (force simp: image_iff)
    then show ?thesis
      unfolding series_min_Flt is_minimum_time_def by auto
  qed
  finally show ?thesis using Flt by simp
qed

lemma background_is_mean: "background b df = blank_mean_at_minimum_time b df"
proof -
  let ?rows = "filter (\<lambda>row. df_Strain row = b \<and>
                 (\<exists>t. df_Time row = Flt t \<and> is_minimum_time df t)) df"
  have rows: "blank_rows b df = ?rows"
    by (simp add: blank_rows_def at_minimum_time)
  have ods: "numbers (map df_OD ?rows)
               = concat (map (\<lambda>row. case df_OD row of Flt x \<Rightarrow> [x] | NaN \<Rightarrow> []) ?rows)"
    by (simp add: numbers_concat comp_def)
  have mean: "(case ys of [] \<Rightarrow> NaN | v # vs \<Rightarrow> Flt (sum_list (v # vs) / real (length (v # vs))))
                = (if ys = [] then NaN else Flt (sum_list ys / real (length ys)))"
    for ys :: "real list"
    by (cases ys) simp_all
  show ?thesis
    unfolding background_def rows series_mean_def blank_mean_at_minimum_time_def ods Let_def
    by (rule mean)
qed

section \<open>Facts about the plotting calls of a run that returns\<close>

lemma prepare_readings_Some:
  assumes "prepare_readings env cfg evs filepath plate blank_strain max_time
             = (evs1, Inr (Some df0))"
  shows "\<exists>h df evs0.
           file_extension_handlers (snd (splitext filepath)) = Some h \<and>
           read_data env h filepath (snd (splitext filepath)) plate max_time = Inr df \<and>
           background_correction evs blank_strain (unique (map plate_Strain plate)) df
             = (evs0, df0) \<and>
           plot_file env cfg evs0 (fst (splitext filepath)) df0 = (evs1, None)"
proof (cases "file_extension_handlers (snd (splitext filepath))")
  case None
  with assms show ?thesis by (simp add: prepare_readings_def case_prod_beta)
next
  case (Some h)
  show ?thesis
  proof (cases "read_data env h filepath (snd (splitext filepath)) plate max_time")
    case (Inl e)
    with assms Some show ?thesis by (simp add: prepare_readings_def case_prod_beta)
  next
    case (Inr df)
    obtain evs0 d where bc:
      "background_correction evs blank_strain (unique (map plate_Strain plate)) df = (evs0, d)"
      by (rule prod.exhaust)
    obtain e1 pr where pf: "plot_file env cfg evs0 (fst (splitext filepath)) d = (e1, pr)"
      by (rule prod.exhaust)
    from assms Some Inr bc pf have "pr = None" "e1 = evs1" "d = df0"
      by (auto simp: prepare_readings_def case_prod_beta Let_def split: option.splits)
    with Some Inr bc pf show ?thesis by simp
  qed
qed

lemma plot_file_None:
  assumes "PLOT cfg" and "plot_file env cfg evs fn df = (evs1, None)"
  shows "plots_plot_wells env df (fn @ ''_wells.png'') = None \<and>
         plots_plot_strains env df (fn @ ''_strains.png'') = None"
  using assms by (auto simp: plot_file_def Let_def split: option.splits)

lemma fit_strain_saved:
  assumes "PLOT cfg"
    and "fit_strain env cfg filepath fn df plate ref_strain strains strain ref_fit evs
           = (evs', Inr (ref_fit', res))"
  shows "strain_plot_saved env cfg fn df strain \<and>
         (strain = ref_strain \<longrightarrow> ref_fit' = first_fit env cfg df strain \<and> ref_fit' \<noteq> None) \<and>
         (strain \<noteq> ref_strain \<longrightarrow> ref_fit' = ref_fit) \<and>
         (strain \<noteq> ref_strain \<and> ref_strain \<in> set strains \<and>
          ref_fit = first_fit env cfg df ref_strain \<longrightarrow>
          competition_plot_saved env cfg fn df plate ref_strain strain)"
proof (cases "models_fit_model env (filter (\<lambda>row. df_Strain row = strain) df) (PLOT cfg) (VERBOSE cfg)")
  case (Inl e)
  with assms(2) show ?thesis by (simp add: fit_strain_def)
next
  case (Inr p)
  obtain fit_results fg where p: "p = (fit_results, fg)" by (cases p)
  note fitted = Inr [unfolded p]
  let ?spf = "fn @ ''_strain_'' @ strain @ ''.png''"
  let ?evs1 = "echo_info cfg (evs @ [Fit_model_call strain])
                 (''Wrote strain '' @ strain @ '' plot to '' @ ?spf)"
  from assms fitted have saved: "savefig env fg ?spf = None"
    by (auto simp: fit_strain_def Let_def split: option.splits)
  with fitted have a: "strain_plot_saved env cfg fn df strain"
    by (simp add: strain_plot_saved_def)
  from assms fitted saved obtain f res0 where
    rec: "strain_record env cfg filepath fn strain fit_results = Inr (f, res0)"
    by (auto simp: fit_strain_def Let_def split: sum.splits)
  from strain_record_fields [OF rec] have f: "fit_results \<noteq> []" "f = hd fit_results"
    by simp_all
  with fitted have ff: "first_fit env cfg df strain = Some f"
    by (cases fit_results) (simp_all add: first_fit_def)
  show ?thesis
  proof (cases "strain = ref_strain")
    case True
    with assms fitted saved rec have "ref_fit' = Some f"
      by (simp add: fit_strain_def Let_def)
    with a ff True show ?thesis by simp
  next
    case False
    show ?thesis
    proof (cases "ref_strain \<in> set strains")
      case False
      with assms fitted saved rec \<open>strain \<noteq> ref_strain\<close> have "ref_fit' = ref_fit"
        by (simp add: fit_strain_def Let_def)
      with a False \<open>strain \<noteq> ref_strain\<close> show ?thesis by simp
    next
      case True
      obtain evs2 c where comp:
        "competition env cfg ?evs1 fn df plate ref_strain strain ?spf f ref_fit = (evs2, c)"
        by (rule prod.exhaust)
      from assms fitted saved rec \<open>strain \<noteq> ref_strain\<close> True comp
      obtain fitness where c: "c = Inr fitness" and same: "ref_fit' = ref_fit"
        by (cases c) (simp_all add: fit_strain_def Let_def)
      have "competition_plot_saved env cfg fn df plate ref_strain strain"
        if "ref_fit = first_fit env cfg df ref_strain"
      proof -
        from comp c that obtain rf where rf: "first_fit env cfg df ref_strain = Some rf"
          by (cases "first_fit env cfg df ref_strain") (simp_all add: competition_def)
        with comp c that assms(1) show ?thesis
          by (auto simp: competition_def competition_plot_saved_def ff Let_def
              split: sum.splits option.splits)
      qed
      with a same \<open>strain \<noteq> ref_strain\<close> show ?thesis by simp
    qed
  qed
qed

lemma fit_strains_saved:
  assumes "PLOT cfg"
    and "fit_strains env cfg filepath fn df plate ref_strain strains todo ref_fit results evs
           = (evs', Inr rs)"
  shows "\<forall>s \<in> set todo. strain_plot_saved env cfg fn df s"
  using assms(2)
proof (induction todo arbitrary: ref_fit results evs)
  case Nil
  then show ?case by simp
next
  case (Cons strain rest)
  from fit_strains_step [OF Cons.prems] obtain evs1 rf res where
    step: "fit_strain env cfg filepath fn df plate ref_strain strains strain ref_fit evs
             = (evs1, Inr (rf, res))"
    and rest: "fit_strains env cfg filepath fn df plate ref_strain strains rest rf (results @ [res]) evs1
             = (evs', Inr rs)"
    by blast
  from fit_strain_saved [OF assms(1) step] Cons.IH [OF rest] show ?case by simp
qed

lemma fit_strains_competitions_saved:
  assumes "PLOT cfg"
    and "fit_strains env cfg filepath fn df plate ref_strain strains todo ref_fit results evs
           = (evs', Inr rs)"
    and "ref_strain \<in> set strains" and "ref_strain \<notin> set todo"
    and "ref_fit = first_fit env cfg df ref_strain"
  shows "\<forall>s \<in> set todo. competition_plot_saved env cfg fn df plate ref_strain s"
  using assms(2,4)
proof (induction todo arbitrary: results evs)
  case Nil
  then show ?case by simp
next
  case (Cons strain rest)
  from fit_strains_step [OF Cons.prems(1)] obtain evs1 rf res where
    step: "fit_strain env cfg filepath fn df plate ref_strain strains strain ref_fit evs
             = (evs1, Inr (rf, res))"
    and rest: "fit_strains env cfg filepath fn df plate ref_strain strains rest rf (results @ [res]) evs1
             = (evs', Inr rs)"
    by blast
  from Cons.prems(2) have ne: "strain \<noteq> ref_strain" and nr: "ref_strain \<notin> set rest" by auto
  from fit_strain_saved [OF assms(1) step] ne assms(3,5)
  have here: "competition_plot_saved env cfg fn df plate ref_strain strain" and rf: "rf = ref_fit"
    by simp_all
  from Cons.IH [OF rest [unfolded rf] nr] here show ?case by simp
qed

section \<open>Facts about the body of \<open>analyse\<close>\<close>

lemma analyse_body_no_files:
  assumes empty: "discover fs path = []"
    and run: "analyse_body env fs cfg path output_file plate_folder plate_file blank_strain ref_strain
                max_time = (evs', outcome)"
  shows "outcome \<noteq> None \<and> (\<forall>table. To_csv table \<notin> set evs') \<and>
         (\<forall>plate_path plate.
            find_plate_file fs plate_folder plate_file = Inr plate_path \<and>
            load_plate env plate_path = Inr plate \<and>
            (PROMPT cfg \<longrightarrow> (\<exists>fg. plots_plot_plate env plate = Inr fg) \<and> confirm env) \<longrightarrow>
            outcome = Some (ClickException (''No data files found in folder '' @ path)))"
proof (cases "find_plate_file fs plate_folder plate_file")
  case (Inl e)
  with run show ?thesis by (auto simp: analyse_body_def)
next
  case found: (Inr plate_path)
  define banner where "banner =
    (if VERBOSE cfg then
       [Echo (''- Processing '' @ path),
        Echo (''- Using plate template from '' @ plate_path),
        Echo (''- Blank strain: '' @ blank_strain @ ''; Reference strain: '' @ ref_strain),
        Echo (''- Omitting data after '' @ format_hours env max_time @ '' hours''),
        Echo (replicate 40 CHR ''-'')]
     else [])"
  have quiet: "To_csv table \<notin> set banner" for table
    by (simp add: banner_def)
  show ?thesis
  proof (cases "load_plate env plate_path")
    case (Inl e)
    with run found have "evs' = banner" "outcome = Some e"
      by (simp_all add: analyse_body_def banner_def Let_def)
    with found Inl quiet show ?thesis by simp
  next
    case loaded: (Inr plate)
    obtain evs1 pr where prompt: "prompt_plate env cfg banner plate = (evs1, pr)"
      by (rule prod.exhaust)
    from prompt_plate_events [OF quiet, of _ env cfg plate] prompt
    have quiet1: "To_csv table \<notin> set evs1" for table by simp
    from prompt_plate_outcome [of env cfg banner plate] prompt
    have pr: "pr = (if PROMPT cfg
                    then (case plots_plot_plate env plate of
                            Inl e \<Rightarrow> Some e
                          | Inr fg \<Rightarrow> if confirm env then None else Some Abort)
                    else None)"
      by simp
    show ?thesis
    proof (cases pr)
      case None
      with run found loaded prompt empty
      have "evs' = evs1"
        "outcome = Some (ClickException (''No data files found in folder '' @ path))"
        by (simp_all add: analyse_body_def banner_def [symmetric] Let_def)
      with quiet1 show ?thesis by simp
    next
      case (Some e)
      with run found loaded prompt have "evs' = evs1" "outcome = Some e"
        by (simp_all add: analyse_body_def banner_def [symmetric] Let_def)
      moreover from Some pr
      have "\<not> (PROMPT cfg \<longrightarrow> (\<exists>fg. plots_plot_plate env plate = Inr fg) \<and> confirm env)"
        by (auto split: if_splits sum.splits)
      ultimately show ?thesis using quiet1 found loaded by auto
    qed
  qed
qed

lemma example_prepared_broken:
  "file_extension_handlers (snd (splitext ''data/a.mat'')) = Some Read_tecan_mat \<and>
   read_data broken_plots_env Read_tecan_mat ''data/a.mat'' (snd (splitext ''data/a.mat''))
     example_plate None = Inr example_df \<and>
   background_correction [] (Some ''0'') (unique (map plate_Strain example_plate)) example_df
     = ([], clamp_negative (subtract (Flt (1/20)) example_df)) \<and>
   plots_plot_wells broken_plots_env (clamp_negative (subtract (Flt (1/20)) example_df))
     (fst (splitext ''data/a.mat'') @ ''_wells.png'') \<noteq> None"
  by (simp add: example_paths file_extension_handlers_def read_data_def call_handler_def
      broken_plots_env_def example_env_def background_correction_def example_strains
      example_background)

lemma example_upper_case: "has_handler ''data/B.MAT''"
  by (simp add: has_handler_def splitext_def lower_def lower_char_def file_extension_handlers_def)

lemma example_run_no_handler:
  "process_file example_env example_config [] ''data/B.MAT'' example_plate blank_strain ref_strain
     None = ([], Inr [])"
  by (simp add: process_file_def prepare_readings_def splitext_def file_extension_handlers_def
      echo_info_def example_config_def)

section \<open>Plate Loader\<close>




section \<open>Background Correction\<close>

text \<open>
  C1. When the blank strain is among the plate's strains, the correction subtracts from
  the optical density of every row the mean optical density of the blank strain's rows at
  the minimum observed time, and clamps negative values to zero: a row with the number \<open>x\<close>
  gets \<open>max 0 (x - m)\<close> for the mean \<open>m\<close>, and NaN stays or spreads from the mean. It
  changes nothing else and emits nothing. Afterwards no row has a negative optical density,
  and every row whose original optical density was below the mean has optical density
  exactly zero. (Optical densities are exact numbers here; the rounding of the subtraction
  is left out.)
\<close>

theorem background_correction_clamps:
  assumes "b \<in> set (unique (map plate_Strain plate))"
    and "background_correction evs (Some b) (unique (map plate_Strain plate)) df = (evs', df')"
  shows "evs' = evs \<and> length df' = length df \<and>
         (\<forall>i < length df.
            df_Well (df' ! i) = df_Well (df ! i) \<and>
            df_Strain (df' ! i) = df_Strain (df ! i) \<and>
            df_Time (df' ! i) = df_Time (df ! i) \<and>
            (\<forall>x m. df_OD (df ! i) = Flt x \<and> blank_mean_at_minimum_time b df = Flt m \<longrightarrow>
                   df_OD (df' ! i) = Flt (max 0 (x - m))) \<and>
            (df_OD (df ! i) = NaN \<or> blank_mean_at_minimum_time b df = NaN \<longrightarrow>
               df_OD (df' ! i) = NaN) \<and>
            (\<forall>y. df_OD (df' ! i) = Flt y \<longrightarrow> 0 \<le> y) \<and>
            (\<forall>x m. df_OD (df ! i) = Flt x \<and> blank_mean_at_minimum_time b df = Flt m \<and> x < m \<longrightarrow>
                   df_OD (df' ! i) = Flt 0))"
proof -
  let ?bg = "blank_mean_at_minimum_time b df"
  from assms have out: "evs' = evs" "df' = clamp_negative (subtract ?bg df)"
    by (simp_all add: background_correction_def background_is_mean)
  have len: "length df' = length df"
    by (simp add: out clamp_negative_def subtract_def)
  have "df_Well (df' ! i) = df_Well (df ! i) \<and>
        df_Strain (df' ! i) = df_Strain (df ! i) \<and>
        df_Time (df' ! i) = df_Time (df ! i) \<and>
        (\<forall>x m. df_OD (df ! i) = Flt x \<and> ?bg = Flt m \<longrightarrow> df_OD (df' ! i) = Flt (max 0 (x - m))) \<and>
        (df_OD (df ! i) = NaN \<or> ?bg = NaN \<longrightarrow> df_OD (df' ! i) = NaN) \<and>
        (\<forall>y. df_OD (df' ! i) = Flt y \<longrightarrow> 0 \<le> y) \<and>
        (\<forall>x m. df_OD (df ! i) = Flt x \<and> ?bg = Flt m \<and> x < m \<longrightarrow> df_OD (df' ! i) = Flt 0)"
    if "i < length df" for i
    unfolding out corrected_row [OF that]
    by (cases "df_OD (df ! i)"; cases ?bg) (auto simp: pf_lt_def pf_sub_def)
  with out len show ?thesis by blast
qed

theorem background_correction_clamps_witness:
  "''0'' \<in> set (unique (map plate_Strain example_plate)) \<and>
   blank_mean_at_minimum_time ''0'' example_df = Flt (1/20) \<and>
   df_OD (example_df ! 1) = Flt (1/25) \<and>
   df_OD (snd (background_correction [] (Some ''0'') (unique (map plate_Strain example_plate))
                 example_df) ! 1) = Flt 0 \<and>
   df_OD (example_df ! 2) = Flt (3/20) \<and>
   df_OD (snd (background_correction [] (Some ''0'') (unique (map plate_Strain example_plate))
                 example_df) ! 2) = Flt (1/10)"
proof -
  have present: "''0'' \<in> set (unique (map plate_Strain example_plate))"
    by (simp add: example_strains)
  have mean: "blank_mean_at_minimum_time ''0'' example_df = Flt (1/20)"
    using background_is_mean [of "''0''" example_df] by (simp add: example_background)
  have rows: "(1::nat) < length example_df" "(2::nat) < length example_df"
    "df_OD (example_df ! 1) = Flt (1/25)" "df_OD (example_df ! 2) = Flt (3/20)"
    by (simp_all add: example_df_def)
  from background_correction_clamps [OF present surjective_pairing, of "[]" example_df]
  have "\<forall>i < length example_df. \<forall>x m.
          df_OD (example_df ! i) = Flt x \<and> blank_mean_at_minimum_time ''0'' example_df = Flt m \<longrightarrow>
          df_OD (snd (background_correction [] (Some ''0'')
                        (unique (map plate_Strain example_plate)) example_df) ! i)
            = Flt (max 0 (x - m))"
    by blast
  from this [rule_format, OF rows(1), of "1/25" "1/20"]
    this [rule_format, OF rows(2), of "3/20" "1/20"] present mean rows
  show ?thesis by simp
qed

section \<open>Result records\<close>

text \<open>
  C9. A strain record that the loop of \<open>process_file\<close> assembles comes from the first
  fit that the fitting routine returned for the strain; when that fit's parameters lack
  \<open>nu\<close> the record has \<open>nu = 1\<close>, when they lack \<open>q0\<close> it has \<open>q0 = 0\<close>, and when they
  lack \<open>v\<close> it has \<open>v = 0\<close>.
\<close>

theorem record_parameter_defaults:
  assumes "fit_strain env cfg filepath fn df plate ref_strain strains strain ref_fit evs
             = (evs', Inr (ref_fit', res))"
  shows "\<exists>fit_results fg.
           models_fit_model env (filter (\<lambda>row. df_Strain row = strain) df) (PLOT cfg) (VERBOSE cfg)
             = Inr (fit_results, fg) \<and>
           fit_results \<noteq> [] \<and>
           (fit_params (hd fit_results) ''nu'' = None \<longrightarrow> res_nu res = 1) \<and>
           (fit_params (hd fit_results) ''q0'' = None \<longrightarrow> res_q0 res = 0) \<and>
           (fit_params (hd fit_results) ''v'' = None \<longrightarrow> res_v res = 0)"
  using assms
  by (auto simp: fit_strain_def Let_def param_default_def
      split: option.splits sum.splits prod.splits if_splits dest!: strain_record_fields)

theorem record_parameter_defaults_witness:
  "\<exists>evs' ref_fit' res.
     fit_strain example_env example_config ''data/a.mat'' ''data/a'' example_df example_plate
       ''1'' [''1'', ''2''] ''2'' (Some example_fit) [] = (evs', Inr (ref_fit', res)) \<and>
     fit_params example_fit ''nu'' = None \<and> fit_params example_fit ''q0'' = None \<and>
     fit_params example_fit ''v'' = None \<and>
     res_nu res = 1 \<and> res_q0 res = 0 \<and> res_v res = 0"
proof -
  obtain evs' r where run:
    "fit_strain example_env example_config ''data/a.mat'' ''data/a'' example_df example_plate
       ''1'' [''1'', ''2''] ''2'' (Some example_fit) [] = (evs', r)"
    by (rule prod.exhaust)
  have "\<exists>x. r = Inr x"
    using run
    by (auto simp: fit_strain_def strain_record_def competition_def ebind_def param_def
        last_item_def example_env_def example_config_def example_fit_def Let_def)
  then obtain ref_fit' res where r: "r = Inr (ref_fit', res)"
    by auto
  have absent: "fit_params example_fit ''nu'' = None" "fit_params example_fit ''q0'' = None"
    "fit_params example_fit ''v'' = None"
    by (simp_all add: example_fit_def)
  from record_parameter_defaults [OF run [unfolded r]] absent
  have "res_nu res = 1 \<and> res_q0 res = 0 \<and> res_v res = 0"
    by (auto simp: example_env_def)
  with run r absent show ?thesis by blast
qed

section \<open>The reference strain\<close>

text \<open>
  C2 (as amended). Whenever the reference strain is among the plate's strains and is not
  the blank strain, it is the first strain of the fitting order; and when the file has a
  handler and \<open>process_file\<close> returns its records, the first record is the reference
  strain's, and every record of the reference strain has fitness \<open>w = 1\<close>.
  As stated, without the condition on the blank strain, the claim fails: when the blank
  strain and the reference strain coincide the strain is removed as the blank and is not
  fitted at all, as the run of the example with blank and reference \<open>1\<close> shows.
\<close>

theorem reference_strain_first:
  assumes present: "ref_strain \<in> set (unique (map plate_Strain plate))"
    and not_blank: "blank_strain \<noteq> Some ref_strain"
    and handler: "file_extension_handlers (snd (splitext filepath)) \<noteq> None"
    and run: "process_file env cfg evs filepath plate blank_strain ref_strain max_time
                = (evs', Inr rs)"
  shows "snd (order_strains evs blank_strain ref_strain (unique (map plate_Strain plate)))
           = ref_strain # remove1 ref_strain
               (remove_blank blank_strain (unique (map plate_Strain plate))) \<and>
         map res_strain rs
           = ref_strain # remove1 ref_strain
               (remove_blank blank_strain (unique (map plate_Strain plate))) \<and>
         rs \<noteq> [] \<and> res_strain (hd rs) = ref_strain \<and> res_w (hd rs) = Some 1 \<and>
         (\<forall>r \<in> set rs. res_strain r = ref_strain \<longrightarrow> res_w r = Some 1)"
proof -
  let ?strains = "unique (map plate_Strain plate)"
  let ?order = "ref_strain # remove1 ref_strain (remove_blank blank_strain ?strains)"
  from present not_blank have kept: "ref_strain \<in> set (remove_blank blank_strain ?strains)"
    by (rule remove_blank_keeps)
  then have ord: "snd (order_strains e blank_strain ref_strain ?strains) = ?order"
    and quiet: "fst (order_strains e blank_strain ref_strain ?strains) = e" for e
    by (simp_all add: order_strains_order order_strains_events)
  show ?thesis
  proof (cases rule: process_file_cases [of env cfg evs filepath plate blank_strain max_time ref_strain])
    case (failed evs1 e)
    with run show ?thesis by simp
  next
    case (no_handler evs1)
    with handler prepare_readings_handler [OF no_handler(1)] show ?thesis by simp
  next
    case (fitted evs1 df0)
    with run have loop:
      "fit_strains env cfg filepath (fst (splitext filepath)) df0 plate ref_strain ?order ?order
         None [] evs1 = (evs', Inr rs)"
      by (simp add: ord quiet)
    from fit_strains_strains [OF loop] have names: "map res_strain rs = ?order" by simp
    then have ne: "rs \<noteq> []" by auto
    with names have first: "res_strain (hd rs) = ref_strain"
      by (cases rs) auto
    from fit_strains_reference_fitness [OF loop]
    have all: "\<forall>r \<in> set rs. res_strain r = ref_strain \<longrightarrow> res_w r = Some 1" by simp
    with ne first have "res_w (hd rs) = Some 1" by simp
    with ord names ne first all show ?thesis by blast
  qed
qed

theorem reference_strain_first_witness:
  "''1'' \<in> set (unique (map plate_Strain example_plate)) \<and>
   Some ''0'' \<noteq> Some ''1'' \<and>
   file_extension_handlers (snd (splitext ''data/a.mat'')) \<noteq> None \<and>
   snd (order_strains [] (Some ''0'') ''1'' (unique (map plate_Strain example_plate)))
     = [''1'', ''2''] \<and>
   (\<exists>evs' rs. process_file example_env example_config [] ''data/a.mat'' example_plate (Some ''0'')
                 ''1'' None = (evs', Inr rs) \<and>
               res_strain (hd rs) = ''1'' \<and> res_w (hd rs) = Some 1)"
proof -
  have present: "''1'' \<in> set (unique (map plate_Strain example_plate))"
    by (simp add: example_strains)
  have not_blank: "Some ''0'' \<noteq> Some ''1''" by simp
  have handler: "file_extension_handlers (snd (splitext ''data/a.mat'')) \<noteq> None"
    by (simp add: example_paths file_extension_handlers_def)
  from reference_strain_first [OF present not_blank handler example_run] present handler
    example_run
  show ?thesis
    by (simp add: example_strains remove_blank_def)
qed

theorem reference_equal_to_blank_counterexample:
  "''1'' \<in> set (unique (map plate_Strain example_plate)) \<and>
   snd (order_strains [] (Some ''1'') ''1'' (unique (map plate_Strain example_plate)))
     = [''0'', ''2''] \<and>
   process_file example_env example_config [] ''data/a.mat'' example_plate (Some ''1'') ''1'' None
     = ([Secho (''Error: '' @ missing_reference_warning ''1'') ERROR_COLOR,
         Fit_model_call ''0'', Fit_model_call ''2''],
        Inr [example_record ''0'' None, example_record ''2'' None])"
  using example_run_coinciding
  by (simp add: example_strains order_strains_def remove_blank_def)

text \<open>
  C3 (as amended). When the reference strain is not among the plate's strains, no record
  that \<open>process_file\<close> returns has a fitness \<open>w\<close>. When moreover the file has a handler and
  its readings are read, corrected and plotted, the warning about the missing reference
  is emitted and the run goes on: the records it returns are those of the plate's strains
  other than the blank, in the plate's order, and it does return them whenever the fitting
  of each of these strains raises nothing.
  As stated, for every file, the claim fails: a file whose extension has no handler, such
  as \<open>data/B.MAT\<close>, is returned from at once, without the warning.
\<close>

theorem missing_reference_no_fitness:
  assumes absent: "ref_strain \<notin> set (unique (map plate_Strain plate))"
    and run: "process_file env cfg evs filepath plate blank_strain ref_strain max_time
                = (evs', outcome)"
  shows "(\<forall>rs. outcome = Inr rs \<longrightarrow> (\<forall>r \<in> set rs. res_w r = None)) \<and>
         (\<forall>evs1 df0.
            prepare_readings env cfg evs filepath plate blank_strain max_time
              = (evs1, Inr (Some df0)) \<longrightarrow>
            Secho (''Error: '' @ missing_reference_warning ref_strain) ERROR_COLOR \<in> set evs' \<and>
            (\<forall>rs. outcome = Inr rs \<longrightarrow>
               map res_strain rs = remove_blank blank_strain (unique (map plate_Strain plate))) \<and>
            ((\<forall>s \<in> set (remove_blank blank_strain (unique (map plate_Strain plate))).
                 fit_succeeds env cfg filepath (fst (splitext filepath)) df0 s) \<longrightarrow>
             (\<exists>rs. outcome = Inr rs)))"
proof -
  from absent remove_blank_subset [of blank_strain "unique (map plate_Strain plate)"]
  have "ref_strain \<notin> set (remove_blank blank_strain (unique (map plate_Strain plate)))"
    by blast
  from run_without_reference [OF this run] show ?thesis by blast
qed

theorem missing_reference_no_fitness_witness:
  "''7'' \<notin> set (unique (map plate_Strain example_plate)) \<and>
   Secho (''Error: '' @ missing_reference_warning ''7'') ERROR_COLOR
     \<in> set (fst (process_file example_env example_config [] ''data/a.mat'' example_plate
                    (Some ''0'') ''7'' None)) \<and>
   (\<exists>rs. snd (process_file example_env example_config [] ''data/a.mat'' example_plate
                 (Some ''0'') ''7'' None) = Inr rs \<and>
         map res_strain rs = [''1'', ''2''] \<and> list_all (\<lambda>r. res_w r = None) rs)"
proof -
  let ?run = "process_file example_env example_config [] ''data/a.mat'' example_plate
                (Some ''0'') ''7'' None"
  have absent: "''7'' \<notin> set (unique (map plate_Strain example_plate))"
    by (simp add: example_strains)
  have blank: "''0'' \<in> set (unique (map plate_Strain example_plate))"
    by (simp add: example_strains)
  note prepared = example_prepared_blank [OF blank]
  have order: "remove_blank (Some ''0'') (unique (map plate_Strain example_plate)) = [''1'', ''2'']"
    by (simp add: remove_blank_def example_strains)
  have fits: "\<forall>s \<in> set (remove_blank (Some ''0'') (unique (map plate_Strain example_plate))).
          fit_succeeds example_env example_config ''data/a.mat'' (fst (splitext ''data/a.mat''))
            (clamp_negative (subtract (background ''0'' example_df) example_df)) s"
    by (simp add: example_paths example_fit_succeeds)
  from missing_reference_no_fitness [OF absent surjective_pairing [of ?run]] prepared fits
  have "Secho (''Error: '' @ missing_reference_warning ''7'') ERROR_COLOR \<in> set (fst ?run)"
    and "\<exists>rs. snd ?run = Inr rs"
    and "\<forall>rs. snd ?run = Inr rs \<longrightarrow>
           map res_strain rs = [''1'', ''2''] \<and> (\<forall>r \<in> set rs. res_w r = None)"
    unfolding order by blast+
  with absent show ?thesis
    by (auto simp: list_all_iff)
qed

theorem missing_reference_counterexample:
  "''7'' \<notin> set (unique (map plate_Strain example_plate)) \<and>
   has_handler ''data/B.MAT'' \<and>
   process_file example_env example_config [] ''data/B.MAT'' example_plate (Some ''0'') ''7'' None
     = ([], Inr [])"
  using example_run_no_handler [of "Some ''0''" "''7''"]
  by (simp add: example_strains example_upper_case)

text \<open>
  C10 (as amended). When the blank strain and the reference strain are the same strain of
  the plate, that strain is removed from the fitting order as the blank, so the reference
  counts as absent: the strain is never fitted, no record is the strain's and no record
  has a fitness \<open>w\<close>; and when the file has a handler and its readings are read, corrected
  and plotted, the warning about the missing reference is emitted.
  As stated, for every file, the claim fails: a file whose extension has no handler, such
  as \<open>data/B.MAT\<close>, is returned from at once, without the warning.
\<close>

theorem blank_equal_to_reference:
  assumes present: "ref_strain \<in> set (unique (map plate_Strain plate))"
    and run: "process_file env cfg evs filepath plate (Some ref_strain) ref_strain max_time
                = (evs', outcome)"
  shows "ref_strain \<notin> set (snd (order_strains evs (Some ref_strain) ref_strain
                                  (unique (map plate_Strain plate)))) \<and>
         (Fit_model_call ref_strain \<in> set evs' \<longrightarrow> Fit_model_call ref_strain \<in> set evs) \<and>
         (\<forall>rs. outcome = Inr rs \<longrightarrow> (\<forall>r \<in> set rs. res_strain r \<noteq> ref_strain \<and> res_w r = None)) \<and>
         (\<forall>evs1 df0.
            prepare_readings env cfg evs filepath plate (Some ref_strain) max_time
              = (evs1, Inr (Some df0)) \<longrightarrow>
            Secho (''Error: '' @ missing_reference_warning ref_strain) ERROR_COLOR \<in> set evs')"
proof -
  have gone: "ref_strain \<notin> set (remove_blank (Some ref_strain) (unique (map plate_Strain plate)))"
    by (rule remove_blank_Some) (rule distinct_unique)
  then have "snd (order_strains evs (Some ref_strain) ref_strain (unique (map plate_Strain plate)))
               = remove_blank (Some ref_strain) (unique (map plate_Strain plate))"
    by (simp add: order_strains_order)
  with gone run_without_reference [OF gone run] show ?thesis by auto
qed

theorem blank_equal_to_reference_witness:
  "''1'' \<in> set (unique (map plate_Strain example_plate)) \<and>
   ''1'' \<notin> set (snd (order_strains [] (Some ''1'') ''1'' (unique (map plate_Strain example_plate)))) \<and>
   Fit_model_call ''1''
     \<notin> set (fst (process_file example_env example_config [] ''data/a.mat'' example_plate
                    (Some ''1'') ''1'' None)) \<and>
   Secho (''Error: '' @ missing_reference_warning ''1'') ERROR_COLOR
     \<in> set (fst (process_file example_env example_config [] ''data/a.mat'' example_plate
                    (Some ''1'') ''1'' None)) \<and>
   (\<exists>rs. snd (process_file example_env example_config [] ''data/a.mat'' example_plate
                 (Some ''1'') ''1'' None) = Inr rs \<and> rs \<noteq> [] \<and>
         list_all (\<lambda>r. res_strain r \<noteq> ''1'' \<and> res_w r = None) rs)"
proof -
  let ?run = "process_file example_env example_config [] ''data/a.mat'' example_plate
                (Some ''1'') ''1'' None"
  have present: "''1'' \<in> set (unique (map plate_Strain example_plate))"
    by (simp add: example_strains)
  note prepared = example_prepared_blank [OF present]
  have returned: "\<exists>rs. snd ?run = Inr rs \<and> rs \<noteq> []"
    by (simp add: example_run_coinciding)
  from blank_equal_to_reference [OF present surjective_pairing [of ?run]] prepared
  have "''1'' \<notin> set (snd (order_strains [] (Some ''1'') ''1''
                            (unique (map plate_Strain example_plate))))"
    and "Fit_model_call ''1'' \<notin> set (fst ?run)"
    and "Secho (''Error: '' @ missing_reference_warning ''1'') ERROR_COLOR \<in> set (fst ?run)"
    and "\<forall>rs. snd ?run = Inr rs \<longrightarrow> (\<forall>r \<in> set rs. res_strain r \<noteq> ''1'' \<and> res_w r = None)"
    by auto
  with present returned show ?thesis
    by (auto simp: list_all_iff)
qed

theorem blank_equal_to_reference_counterexample:
  "''1'' \<in> set (unique (map plate_Strain example_plate)) \<and>
   has_handler ''data/B.MAT'' \<and>
   process_file example_env example_config [] ''data/B.MAT'' example_plate (Some ''1'') ''1'' None
     = ([], Inr [])"
  using example_run_no_handler [of "Some ''1''" "''1''"]
  by (simp add: example_strains example_upper_case)

section \<open>Plots\<close>

text \<open>
  C6 (as amended). Plotting failures are not isolated. When plotting is enabled and the
  file has a handler, \<open>process_file\<close> returns records only if every plotting call it made
  returned normally: the wells plot and the strains plot of the corrected readings, the
  saving of the fit plot of every strain of the fitting order, and the saving of the
  competition plot of every strain of the order other than the reference when the
  reference is in the order. So when one of these calls fails, \<open>process_file\<close> raises and
  returns no records.
  As stated, the claim fails: the same run returns two records when the wells plot
  succeeds and raises the plot's error when it fails.
\<close>

theorem plotting_failure_aborts:
  assumes plot: "PLOT cfg"
    and handler: "file_extension_handlers (snd (splitext filepath)) \<noteq> None"
    and run: "process_file env cfg evs filepath plate blank_strain ref_strain max_time
                = (evs', outcome)"
    and order: "order = snd (order_strains evs blank_strain ref_strain
                               (unique (map plate_Strain plate)))"
  shows "(\<forall>rs. outcome = Inr rs \<longrightarrow>
            (\<exists>h df evs0 df0.
               file_extension_handlers (snd (splitext filepath)) = Some h \<and>
               read_data env h filepath (snd (splitext filepath)) plate max_time = Inr df \<and>
               background_correction evs blank_strain (unique (map plate_Strain plate)) df
                 = (evs0, df0) \<and>
               plots_plot_wells env df0 (fst (splitext filepath) @ ''_wells.png'') = None \<and>
               plots_plot_strains env df0 (fst (splitext filepath) @ ''_strains.png'') = None \<and>
               (\<forall>s \<in> set order. strain_plot_saved env cfg (fst (splitext filepath)) df0 s) \<and>
               (ref_strain \<in> set order \<longrightarrow>
                  (\<forall>s \<in> set order. s \<noteq> ref_strain \<longrightarrow>
                     competition_plot_saved env cfg (fst (splitext filepath)) df0 plate
                       ref_strain s)))) \<and>
         (\<forall>h df evs0 df0.
            file_extension_handlers (snd (splitext filepath)) = Some h \<and>
            read_data env h filepath (snd (splitext filepath)) plate max_time = Inr df \<and>
            background_correction evs blank_strain (unique (map plate_Strain plate)) df
              = (evs0, df0) \<and>
            (plots_plot_wells env df0 (fst (splitext filepath) @ ''_wells.png'') \<noteq> None \<or>
             plots_plot_strains env df0 (fst (splitext filepath) @ ''_strains.png'') \<noteq> None \<or>
             (\<exists>s \<in> set order. \<not> strain_plot_saved env cfg (fst (splitext filepath)) df0 s) \<or>
             (ref_strain \<in> set order \<and>
              (\<exists>s \<in> set order. s \<noteq> ref_strain \<and>
                 \<not> competition_plot_saved env cfg (fst (splitext filepath)) df0 plate
                      ref_strain s))) \<longrightarrow>
            (\<exists>e. outcome = Inl e))"
proof -
  let ?fn = "fst (splitext filepath)"
  let ?ext = "snd (splitext filepath)"
  let ?strains = "unique (map plate_Strain plate)"
  let ?rb = "remove_blank blank_strain ?strains"
  have ok: "\<exists>h df evs0 df0.
       file_extension_handlers ?ext = Some h \<and>
       read_data env h filepath ?ext plate max_time = Inr df \<and>
       background_correction evs blank_strain ?strains df = (evs0, df0) \<and>
       plots_plot_wells env df0 (?fn @ ''_wells.png'') = None \<and>
       plots_plot_strains env df0 (?fn @ ''_strains.png'') = None \<and>
       (\<forall>s \<in> set order. strain_plot_saved env cfg ?fn df0 s) \<and>
       (ref_strain \<in> set order \<longrightarrow>
          (\<forall>s \<in> set order. s \<noteq> ref_strain \<longrightarrow>
             competition_plot_saved env cfg ?fn df0 plate ref_strain s))"
    if out: "outcome = Inr rs" for rs
  proof (cases rule: process_file_cases [of env cfg evs filepath plate blank_strain max_time ref_strain])
    case (failed evs1 e)
    with run out show ?thesis by simp
  next
    case (no_handler evs1)
    with handler prepare_readings_handler [OF no_handler(1)] show ?thesis by simp
  next
    case (fitted evs1 df0)
    from prepare_readings_Some [OF fitted(1)] obtain h df evs0 where
      pre: "file_extension_handlers ?ext = Some h"
        "read_data env h filepath ?ext plate max_time = Inr df"
        "background_correction evs blank_strain ?strains df = (evs0, df0)"
        "plot_file env cfg evs0 ?fn df0 = (evs1, None)"
      by blast
    note plots = plot_file_None [OF plot pre(4)]
    have same: "snd (order_strains evs1 blank_strain ref_strain ?strains) = order"
      by (simp add: order order_strains_order)
    let ?evs2 = "fst (order_strains evs1 blank_strain ref_strain ?strains)"
    from fitted(2) run out same have loop:
      "fit_strains env cfg filepath ?fn df0 plate ref_strain order order None [] ?evs2
         = (evs', Inr rs)"
      by simp
    note strain_plots = fit_strains_saved [OF plot loop]
    have comps: "\<forall>s \<in> set order. s \<noteq> ref_strain \<longrightarrow>
                   competition_plot_saved env cfg ?fn df0 plate ref_strain s"
      if present: "ref_strain \<in> set order"
    proof -
      have ord: "order = (if ref_strain \<in> set ?rb then ref_strain # remove1 ref_strain ?rb
                          else ?rb)"
        by (simp add: order order_strains_order)
      with present have inrb: "ref_strain \<in> set ?rb" by (auto split: if_splits)
      with ord have shape: "order = ref_strain # remove1 ref_strain ?rb" by simp
      have "distinct ?rb"
        by (rule distinct_remove_blank) (rule distinct_unique)
      then have away: "ref_strain \<notin> set (remove1 ref_strain ?rb)" by simp
      from fit_strains_step [OF loop [unfolded shape]] obtain e1 rf res where
        step: "fit_strain env cfg filepath ?fn df0 plate ref_strain
                 (ref_strain # remove1 ref_strain ?rb) ref_strain None ?evs2 = (e1, Inr (rf, res))"
        and rest: "fit_strains env cfg filepath ?fn df0 plate ref_strain
                 (ref_strain # remove1 ref_strain ?rb) (remove1 ref_strain ?rb) rf ([] @ [res]) e1
                 = (evs', Inr rs)"
        by blast
      from fit_strain_saved [OF plot step] have rf: "rf = first_fit env cfg df0 ref_strain"
        by simp
      have "ref_strain \<in> set (ref_strain # remove1 ref_strain ?rb)" by simp
      from fit_strains_competitions_saved [OF plot rest this away rf]
      show ?thesis by (simp add: shape)
    qed
    from comps have comps': "ref_strain \<in> set order \<longrightarrow>
          (\<forall>s \<in> set order. s \<noteq> ref_strain \<longrightarrow>
             competition_plot_saved env cfg ?fn df0 plate ref_strain s)"
      by (rule impI)
    from plots have wells: "plots_plot_wells env df0 (?fn @ ''_wells.png'') = None"
      and strains: "plots_plot_strains env df0 (?fn @ ''_strains.png'') = None"
      by (rule conjunct1, rule conjunct2)
    show ?thesis
      by (intro exI conjI) (rule pre(1) pre(2) pre(3) wells strains strain_plots comps')+
  qed
  have raised: "\<exists>e. outcome = Inl e"
    if pre: "file_extension_handlers ?ext = Some h"
      "read_data env h filepath ?ext plate max_time = Inr df"
      "background_correction evs blank_strain ?strains df = (evs0, df0)"
    and bad: "plots_plot_wells env df0 (?fn @ ''_wells.png'') \<noteq> None \<or>
       plots_plot_strains env df0 (?fn @ ''_strains.png'') \<noteq> None \<or>
       (\<exists>s \<in> set order. \<not> strain_plot_saved env cfg ?fn df0 s) \<or>
       (ref_strain \<in> set order \<and>
        (\<exists>s \<in> set order. s \<noteq> ref_strain \<and>
           \<not> competition_plot_saved env cfg ?fn df0 plate ref_strain s))"
    for h df evs0 df0
  proof (cases outcome)
    case (Inl e)
    then show ?thesis by simp
  next
    case (Inr rs)
    from ok [OF Inr] obtain h' df' evs0' df0' where
      g1: "file_extension_handlers ?ext = Some h'"
      and g2: "read_data env h' filepath ?ext plate max_time = Inr df'"
      and g3: "background_correction evs blank_strain ?strains df' = (evs0', df0')"
      and g4: "plots_plot_wells env df0' (?fn @ ''_wells.png'') = None"
      and g5: "plots_plot_strains env df0' (?fn @ ''_strains.png'') = None"
      and g6: "\<forall>s \<in> set order. strain_plot_saved env cfg ?fn df0' s"
      and g7: "ref_strain \<in> set order \<longrightarrow>
          (\<forall>s \<in> set order. s \<noteq> ref_strain \<longrightarrow>
             competition_plot_saved env cfg ?fn df0' plate ref_strain s)"
      by (elim exE conjE)
    from g1 pre(1) have "h' = h" by simp
    with g2 pre(2) have "df' = df" by simp
    with g3 pre(3) have d: "df0' = df0" by simp
    from bad show ?thesis
    proof (elim disjE conjE bexE)
      assume "plots_plot_wells env df0 (?fn @ ''_wells.png'') \<noteq> None"
      with g4 d show ?thesis by simp
    next
      assume "plots_plot_strains env df0 (?fn @ ''_strains.png'') \<noteq> None"
      with g5 d show ?thesis by simp
    next
      fix s assume "s \<in> set order" "\<not> strain_plot_saved env cfg ?fn df0 s"
      with g6 d show ?thesis by simp
    next
      fix s assume "ref_strain \<in> set order" "s \<in> set order" "s \<noteq> ref_strain"
        "\<not> competition_plot_saved env cfg ?fn df0 plate ref_strain s"
      with g7 d show ?thesis by simp
    qed
  qed
  show ?thesis
  proof (intro conjI allI impI)
    fix rs assume "outcome = Inr rs"
    then show "\<exists>h df evs0 df0.
       file_extension_handlers ?ext = Some h \<and>
       read_data env h filepath ?ext plate max_time = Inr df \<and>
       background_correction evs blank_strain ?strains df = (evs0, df0) \<and>
       plots_plot_wells env df0 (?fn @ ''_wells.png'') = None \<and>
       plots_plot_strains env df0 (?fn @ ''_strains.png'') = None \<and>
       (\<forall>s \<in> set order. strain_plot_saved env cfg ?fn df0 s) \<and>
       (ref_strain \<in> set order \<longrightarrow>
          (\<forall>s \<in> set order. s \<noteq> ref_strain \<longrightarrow>
             competition_plot_saved env cfg ?fn df0 plate ref_strain s))"
      by (rule ok)
  next
    fix h df evs0 df0
    assume a: "file_extension_handlers ?ext = Some h \<and>
       read_data env h filepath ?ext plate max_time = Inr df \<and>
       background_correction evs blank_strain ?strains df = (evs0, df0) \<and>
       (plots_plot_wells env df0 (?fn @ ''_wells.png'') \<noteq> None \<or>
        plots_plot_strains env df0 (?fn @ ''_strains.png'') \<noteq> None \<or>
        (\<exists>s \<in> set order. \<not> strain_plot_saved env cfg ?fn df0 s) \<or>
        (ref_strain \<in> set order \<and>
         (\<exists>s \<in> set order. s \<noteq> ref_strain \<and>
            \<not> competition_plot_saved env cfg ?fn df0 plate ref_strain s)))"
    from a have "file_extension_handlers ?ext = Some h" by (rule conjunct1)
    moreover from a have "read_data env h filepath ?ext plate max_time = Inr df"
      by (elim conjE)
    moreover from a have "background_correction evs blank_strain ?strains df = (evs0, df0)"
      by (elim conjE)
    moreover from a have "plots_plot_wells env df0 (?fn @ ''_wells.png'') \<noteq> None \<or>
        plots_plot_strains env df0 (?fn @ ''_strains.png'') \<noteq> None \<or>
        (\<exists>s \<in> set order. \<not> strain_plot_saved env cfg ?fn df0 s) \<or>
        (ref_strain \<in> set order \<and>
         (\<exists>s \<in> set order. s \<noteq> ref_strain \<and>
            \<not> competition_plot_saved env cfg ?fn df0 plate ref_strain s))"
      by (elim conjE)
    ultimately show "\<exists>e. outcome = Inl e" by (rule raised)
  qed
qed

theorem plotting_failure_aborts_witness:
  "PLOT example_config \<and>
   file_extension_handlers (snd (splitext ''data/a.mat'')) \<noteq> None \<and>
   plots_plot_wells broken_plots_env (clamp_negative (subtract (Flt (1/20)) example_df))
     (fst (splitext ''data/a.mat'') @ ''_wells.png'') \<noteq> None \<and>
   (\<exists>e. snd (process_file broken_plots_env example_config [] ''data/a.mat'' example_plate
                (Some ''0'') ''1'' None) = Inl e)"
proof -
  let ?df0 = "clamp_negative (subtract (Flt (1/20)) example_df)"
  let ?broken = "process_file broken_plots_env example_config [] ''data/a.mat'' example_plate
                   (Some ''0'') ''1'' None"
  have plot: "PLOT example_config" by (simp add: example_config_def)
  have handler: "file_extension_handlers (snd (splitext ''data/a.mat'')) \<noteq> None"
    by (simp add: example_paths file_extension_handlers_def)
  have order: "[''1'', ''2''] = snd (order_strains [] (Some ''0'') ''1''
                                       (unique (map plate_Strain example_plate)))"
    by (simp add: order_strains_def remove_blank_def example_strains)
  note broken = example_prepared_broken
  from broken have wells: "plots_plot_wells broken_plots_env ?df0
      (fst (splitext ''data/a.mat'') @ ''_wells.png'') \<noteq> None"
    by (elim conjE)
  note inst = plotting_failure_aborts [OF plot handler surjective_pairing [of ?broken] order]
  from inst have
    "\<forall>h df evs0 df0.
       file_extension_handlers (snd (splitext ''data/a.mat'')) = Some h \<and>
       read_data broken_plots_env h ''data/a.mat'' (snd (splitext ''data/a.mat'')) example_plate
         None = Inr df \<and>
       background_correction [] (Some ''0'') (unique (map plate_Strain example_plate)) df
         = (evs0, df0) \<and>
       (plots_plot_wells broken_plots_env df0 (fst (splitext ''data/a.mat'') @ ''_wells.png'')
          \<noteq> None \<or>
        plots_plot_strains broken_plots_env df0 (fst (splitext ''data/a.mat'') @ ''_strains.png'')
          \<noteq> None \<or>
        (\<exists>s \<in> set [''1'', ''2''].
           \<not> strain_plot_saved broken_plots_env example_config (fst (splitext ''data/a.mat''))
                df0 s) \<or>
        (''1'' \<in> set [''1'', ''2''] \<and>
         (\<exists>s \<in> set [''1'', ''2'']. s \<noteq> ''1'' \<and>
            \<not> competition_plot_saved broken_plots_env example_config
                 (fst (splitext ''data/a.mat'')) df0 example_plate ''1'' s))) \<longrightarrow>
       (\<exists>e. snd ?broken = Inl e)"
    by (rule conjunct2)
  from this [rule_format, of Read_tecan_mat example_df "[]" ?df0] broken
  have a: "\<exists>e. snd ?broken = Inl e"
    by simp
  from plot handler wells a show ?thesis by (intro conjI)
qed

theorem plotting_failure_counterexample:
  "PLOT example_config \<and>
   process_file broken_plots_env example_config [] ''data/a.mat'' example_plate (Some ''0'')
     ''1'' None = ([], Inl (OtherError ''cannot write image'')) \<and>
   process_file example_env example_config [] ''data/a.mat'' example_plate (Some ''0'') ''1'' None
     = ([Fit_model_call ''1'', Fit_model_call ''2''],
        Inr [example_record ''1'' (Some 1), example_record ''2'' (Some (11/10))])"
  using example_run_broken_plots example_run
  by (simp add: example_config_def)

section \<open>File Discovery\<close>

text \<open>
  C4. For a directory, discovery is to return the paths of the directory's entries with a
  recognised extension. For the relative directory \<open>data\<close>, whose entries \<open>glob\<close>
  returns as \<open>data/a.mat\<close> and \<open>data/notes.txt\<close>, the code joins the directory in front of
  each match once more and returns \<open>data/data/a.mat\<close>, which is no entry of the directory
  and does not exist.
\<close>

theorem discover_relative_directory:
  "isdir example_fs ''data'' \<and>
   glob example_fs (path_join ''data'' ''*'') = [''data/a.mat'', ''data/notes.txt''] \<and>
   discover example_fs ''data'' = [''data/data/a.mat''] \<and>
   \<not> exists example_fs ''data/data/a.mat'' \<and>
   ''data/a.mat'' \<notin> set (discover example_fs ''data'')"
proof -
  have "has_handler ''data/data/a.mat''" "\<not> has_handler ''data/data/notes.txt''"
    by (simp_all add: has_handler_def splitext_def lower_def lower_char_def
        file_extension_handlers_def)
  then have "discover example_fs ''data'' = [''data/data/a.mat'']"
    by (simp add: discover_def example_list_files)
  then show ?thesis
    by (simp add: example_fs_def path_join_def)
qed

section \<open>No data files\<close>

text \<open>
  C5 (as amended). When the extension-filtered list of discovered files is empty,
  \<open>analyse\<close> ends with an error and never writes the output table; and when the path
  exists and is readable, the plate file is found and loaded and the plate is confirmed
  (or no confirmation is asked for), the error is the \<open>ClickException\<close> with the message
  \<open>No data files found in folder\<close> followed by the path.
  As stated, for every path, the claim fails: a path that does not exist is refused by
  click with \<open>BadParameter\<close>, and a missing plate file raises \<open>FileError\<close> before the
  files are looked for.
\<close>

theorem no_data_files_found:
  assumes empty: "discover fs path = []"
    and run: "analyse env fs cfg path output_file plate_folder plate_file blank_strain ref_strain
                max_time = (evs', outcome)"
  shows "outcome \<noteq> None \<and> (\<forall>table. To_csv table \<notin> set evs') \<and>
         (\<forall>plate_path plate.
            exists fs path \<and> readable fs path \<and>
            find_plate_file fs plate_folder plate_file = Inr plate_path \<and>
            load_plate env plate_path = Inr plate \<and>
            (PROMPT cfg \<longrightarrow> (\<exists>fg. plots_plot_plate env plate = Inr fg) \<and> confirm env) \<longrightarrow>
            outcome = Some (ClickException (''No data files found in folder '' @ path)))"
proof (cases "click_path fs path")
  case None
  then have ok: "exists fs path" "readable fs path"
    by (auto simp: click_path_def split: if_splits)
  from None run
  have "analyse_body env fs cfg path output_file plate_folder plate_file blank_strain ref_strain
          max_time = (evs', outcome)"
    by (simp add: analyse_def)
  from analyse_body_no_files [OF empty this] show ?thesis by blast
next
  case (Some e)
  with run have out: "evs' = []" "outcome = Some e" by (simp_all add: analyse_def)
  from Some have "\<not> (exists fs path \<and> readable fs path)"
    by (auto simp: click_path_def split: if_splits)
  with out show ?thesis by auto
qed

theorem no_data_files_found_witness:
  "discover example_fs ''data/notes.txt'' = [] \<and>
   exists example_fs ''data/notes.txt'' \<and> readable example_fs ''data/notes.txt'' \<and>
   find_plate_file example_fs ''plate_templates'' ''checkerboard.csv''
     = Inr ''plate_templates/checkerboard.csv'' \<and>
   load_plate example_env ''plate_templates/checkerboard.csv'' = Inr example_plate \<and>
   \<not> PROMPT example_config \<and>
   snd (analyse example_env example_fs example_config ''data/notes.txt'' ''out.csv''
          ''plate_templates'' ''checkerboard.csv'' ''0'' ''1'' None)
     = Some (ClickException ''No data files found in folder data/notes.txt'') \<and>
   To_csv [] \<notin> set (fst (analyse example_env example_fs example_config ''data/notes.txt''
                             ''out.csv'' ''plate_templates'' ''checkerboard.csv'' ''0'' ''1'' None))"
proof -
  let ?run = "analyse example_env example_fs example_config ''data/notes.txt'' ''out.csv''
                ''plate_templates'' ''checkerboard.csv'' ''0'' ''1'' None"
  have "\<not> has_handler ''data/notes.txt''"
    by (simp add: has_handler_def splitext_def lower_def lower_char_def
        file_extension_handlers_def)
  then have empty: "discover example_fs ''data/notes.txt'' = []"
    by (simp add: discover_def list_files_def example_fs_def)
  have there: "exists example_fs ''data/notes.txt''" "readable example_fs ''data/notes.txt''"
    by (simp_all add: example_fs_def)
  have found: "find_plate_file example_fs ''plate_templates'' ''checkerboard.csv''
                 = Inr ''plate_templates/checkerboard.csv''"
    by (simp add: find_plate_file_def example_fs_def path_join_def)
  have loaded: "load_plate example_env ''plate_templates/checkerboard.csv'' = Inr example_plate"
    by (simp add: load_plate_def example_env_def)
  have prompt: "\<not> PROMPT example_config"
    by (simp add: example_config_def)
  from no_data_files_found [OF empty surjective_pairing [of ?run]] there found loaded prompt
  have "snd ?run = Some (ClickException (''No data files found in folder '' @ ''data/notes.txt''))"
    and "To_csv [] \<notin> set (fst ?run)"
    by blast+
  with empty there found loaded prompt show ?thesis by simp
qed

theorem no_data_files_found_counterexample:
  "discover example_fs ''nodir/*.mat'' = [] \<and>
   analyse example_env example_fs example_config ''nodir/*.mat'' ''out.csv''
       ''plate_templates'' ''checkerboard.csv'' ''0'' ''1'' None
     = ([], Some (BadParameter (''Path '' @ [CHR 0x22] @ ''nodir/*.mat'' @ [CHR 0x22]
                                @ '' does not exist.''))) \<and>
   discover example_fs ''data/notes.txt'' = [] \<and>
   analyse example_env example_fs example_config ''data/notes.txt'' ''out.csv''
       ''plate_templates'' ''missing.csv'' ''0'' ''1'' None
     = ([], Some (FileError ''/pkg/plate_templates/missing.csv'' ''can't find file.''))"
proof -
  have "\<not> has_handler ''data/notes.txt''"
    by (simp add: has_handler_def splitext_def lower_def lower_char_def
        file_extension_handlers_def)
  then have "discover example_fs ''data/notes.txt'' = []"
    by (simp add: discover_def list_files_def example_fs_def)
  moreover have "discover example_fs ''nodir/*.mat'' = []"
    by (simp add: discover_def list_files_def example_fs_def)
  ultimately show ?thesis
    by (simp add: analyse_def click_path_def analyse_body_def find_plate_file_def
        example_fs_def path_join_def)
qed

end
